theory Spec2Isabelle
  imports Complex_Main
begin

section \<open>Values of the host language\<close>

text \<open>
  The simulator is a TypeScript class. Its numbers are IEEE doubles; the class never
  calculates with them, it only asks whether one is truthy (the operator \<open>||\<close>).
  A number is therefore one of the special doubles or a finite value, kept as a rational.
  The falsy numbers are \<open>NaN\<close>, \<open>-0\<close> and \<open>+0\<close> (\<open>Fin 0\<close>).

  Values the class never inspects (the environment definition, the seed data, a generated
  event, a thrown error) are elements of the type parameter \<open>'v\<close>.
\<close>

datatype number = NaN | NegZero | Fin rat | PosInfinity | NegInfinity

fun truthy_number :: "number \<Rightarrow> bool" where
  "truthy_number NaN = False"
| "truthy_number NegZero = False"
| "truthy_number (Fin r) = (r \<noteq> 0)"
| "truthy_number PosInfinity = True"
| "truthy_number NegInfinity = True"

definition truthy_string :: "string \<Rightarrow> bool" where
  "truthy_string s = (s \<noteq> [])"

definition truthy_boolean :: "bool \<Rightarrow> bool" where
  "truthy_boolean b = b"

text \<open>An array is an object, and every object is truthy, the empty array too.\<close>

definition truthy_array :: "'a list \<Rightarrow> bool" where
  "truthy_array xs = True"

text \<open>
  \<open>x || d\<close> on an optional field: \<open>undefined\<close> (\<open>None\<close>) is falsy; a supplied value
  is kept when it is truthy and replaced by \<open>d\<close> otherwise.
\<close>

definition or_default :: "('a \<Rightarrow> bool) \<Rightarrow> 'a option \<Rightarrow> 'a \<Rightarrow> 'a option" where
  "or_default truthy x d =
     (case x of None \<Rightarrow> Some d | Some v \<Rightarrow> if truthy v then Some v else Some d)"

section \<open>Configuration\<close>

text \<open>
  Modelled from the spec: the declaration of \<open>SimulatorOptions\<close>
  (\<open>models/options/simulator.options\<close>) is not among the sources. The fields are those
  that \<open>initOptionsWithDefaults\<close> reads, with the types of the spec's data model;
  \<open>name\<close> and \<open>environment\<close> are required, every other field may be \<open>undefined\<close>.
\<close>

record 'v SimulatorOptions =
  name :: string
  description :: "string option"
  iterations :: "number option"
  numSentients :: "number option"
  numNonSentients :: "number option"
  maxPopulationSize :: "number option"
  godEventProbability :: "number option"
  spawnRate :: "number option"
  verbose :: "bool option"
  temperature :: "number option"
  mode :: "string option"
  data :: "'v list option"
  environment :: 'v

definition initOptionsWithDefaults :: "'v SimulatorOptions \<Rightarrow> 'v SimulatorOptions" where
  "initOptionsWithDefaults options =
     \<lparr> name = name options,
       description =
         or_default truthy_string (description options)
           ''a generic simulation with nothing special'',
       iterations = or_default truthy_number (iterations options) (Fin 1000),
       numSentients = or_default truthy_number (numSentients options) (Fin 10),
       numNonSentients = or_default truthy_number (numNonSentients options) (Fin 10),
       maxPopulationSize = or_default truthy_number (maxPopulationSize options) (Fin 100),
       godEventProbability =
         or_default truthy_number (godEventProbability options) (Fin (1 / 10)),
       spawnRate = or_default truthy_number (spawnRate options) (Fin (1 / 10)),
       verbose = or_default truthy_boolean (verbose options) False,
       temperature = or_default truthy_number (temperature options) (Fin (1 / 2)),
       mode = or_default truthy_string (mode options) ''normal'',
       data = or_default truthy_array (data options) [],
       environment = environment options \<rparr>"

section \<open>Log records and effects\<close>

text \<open>
  Modelled from the spec: the enumeration \<open>SimulatorEvents\<close> (\<open>common\<close>) is not among
  the sources; these are the five kinds of record the spec lists, four of which the
  class emits by name.
\<close>

datatype SimulatorEvents =
  SIMULATOR_START | SIMULATOR_STOP | SIMULATOR_PAUSE | SIMULATOR_RESUME | SYSTEM_LOG

text \<open>The two shapes of the \<open>data\<close> field that \<open>describeEnvironment\<close> builds.\<close>

datatype 'v payload =
  EnvironmentDescription 'v string
| ErrorDetail 'v

record 'v LifecycleRecord =
  event :: SimulatorEvents
  message :: string
  data :: "'v payload option"

text \<open>
  Everything the class does to the world outside it, in the order it does it: the calls
  to the logger, to \<open>readline\<close>, to the environment sandbox, to the text-completion
  service, to the console, and to the process.
\<close>

datatype 'v effect =
  Log "'v LifecycleRecord"
| CreateInterface
| Question string
| RlClose
| GetNextEnvironmentEvent
| ConsoleLog string 'v
| ConsoleError string 'v
| StopLogWriter
| ProcessExit int
| Llm string

section \<open>The simulator and its surroundings\<close>

text \<open>
  The fields of the class (\<open>options\<close>, \<open>isRunning\<close>, \<open>isPaused\<close>), followed by
  the part of the runtime the class acts on: the trace of effects so far, the number of
  callbacks still outstanding (prompts not yet answered, environment events not yet
  delivered, \<open>stopLogWriter\<close> promises that a \<open>stop\<close> awaits, text completions that a
  \<open>describeEnvironment\<close> awaits), and the exit status once the process has ended.
  The event emitter and the sandbox object are built by the constructor and never
  reassigned; only the sandbox's \<open>getNextEnvironmentEvent\<close> is called.
\<close>

record 'v Simulator =
  options :: "'v SimulatorOptions"
  isRunning :: bool
  isPaused :: bool
  trace :: "'v effect list"
  questions :: nat
  fetches :: nat
  flushes :: nat
  completions :: nat
  exitStatus :: "int option"

definition emit :: "'v effect \<Rightarrow> 'v Simulator \<Rightarrow> 'v Simulator" where
  "emit e s = s\<lparr>trace := trace s @ [e]\<rparr>"

text \<open>\<open>simulatorLogger.log(record)\<close>.\<close>

definition simulatorLogger_log :: "'v LifecycleRecord \<Rightarrow> 'v Simulator \<Rightarrow> 'v Simulator" where
  "simulatorLogger_log r s = emit (Log r) s"

text \<open>
  The constructor: defaults merged, both flags false, nothing done yet. Its call of
  \<open>init\<close> does nothing, since \<open>setupEventListeners\<close> finds the emitter already built.
\<close>

definition new_Simulator :: "'v SimulatorOptions \<Rightarrow> 'v Simulator" where
  "new_Simulator opts =
     \<lparr> options = initOptionsWithDefaults opts,
       isRunning = False,
       isPaused = False,
       trace = [],
       questions = 0,
       fetches = 0,
       flushes = 0,
       completions = 0,
       exitStatus = None \<rparr>"

text \<open>The template literal \<open>SIMULATION '${this.options.name}' <what>.\<close>\<close>

definition simulation_message :: "'v Simulator \<Rightarrow> string \<Rightarrow> string" where
  "simulation_message s what =
     ''SIMULATION '' @ [CHR 0x27] @ name (options s) @ [CHR 0x27] @ '' '' @ what @ ''.''"

definition start_record :: "'v Simulator \<Rightarrow> 'v LifecycleRecord" where
  "start_record s =
     \<lparr>event = SIMULATOR_START, message = simulation_message s ''started'', data = None\<rparr>"

definition stop_record :: "'v Simulator \<Rightarrow> 'v LifecycleRecord" where
  "stop_record s =
     \<lparr>event = SIMULATOR_STOP, message = simulation_message s ''stopped'', data = None\<rparr>"

definition pause_record :: "'v Simulator \<Rightarrow> 'v LifecycleRecord" where
  "pause_record s =
     \<lparr>event = SIMULATOR_PAUSE, message = simulation_message s ''paused'', data = None\<rparr>"

definition resume_record :: "'v Simulator \<Rightarrow> 'v LifecycleRecord" where
  "resume_record s =
     \<lparr>event = SIMULATOR_RESUME, message = simulation_message s ''resumed'', data = None\<rparr>"

definition iteration_record :: "'v Simulator \<Rightarrow> 'v LifecycleRecord" where
  "iteration_record s =
     \<lparr>event = SYSTEM_LOG,
      message =
        ''Running iteration for SIMULATION '' @ [CHR 0x27] @ name (options s) @ [CHR 0x27] @ ''.'',
      data = None\<rparr>"

definition question_prompt :: string where
  "question_prompt = ''Press 'x' to continue simulation and 'q' to exit:''"

section \<open>Lifecycle operations\<close>

definition getRunningState :: "'v Simulator \<Rightarrow> bool" where
  "getRunningState s = (isRunning s \<and> \<not> isPaused s)"

text \<open>
  \<open>runIteration\<close>: returns at once when paused; otherwise logs the iteration, creates
  a \<open>readline\<close> interface and asks the question. The callback of the question runs later,
  when the operator has answered (\<open>question_callback\<close>).
\<close>

definition runIteration :: "'v Simulator \<Rightarrow> 'v Simulator" where
  "runIteration s =
     (if isPaused s then s
      else
        let s1 = simulatorLogger_log (iteration_record s) s;
            s2 = emit CreateInterface s1;
            s3 = emit (Question question_prompt) s2
        in s3\<lparr>questions := questions s3 + 1\<rparr>)"

definition runSimulation :: "'v Simulator \<Rightarrow> 'v Simulator" where
  "runSimulation s = (if getRunningState s then runIteration s else s)"

definition start :: "'v Simulator \<Rightarrow> 'v Simulator" where
  "start s =
     (let s1 = s\<lparr>isRunning := True\<rparr>;
          s2 = simulatorLogger_log (start_record s1) s1
      in runSimulation s2)"

definition process_exit :: "int \<Rightarrow> 'v Simulator \<Rightarrow> 'v Simulator" where
  "process_exit code s = (emit (ProcessExit code) s)\<lparr>exitStatus := Some code\<rparr>"

text \<open>
  \<open>stop\<close> is asynchronous. \<open>stop\<close> below is the part that runs when it is called, up to
  the \<open>await\<close> of \<open>stopLogWriter()\<close>; \<open>stop_continue\<close> is the rest, run when that promise
  settles. A rejection (\<open>Inl\<close>) is thrown by the \<open>await\<close>, so \<open>process.exit\<close> is not
  reached and the promise of \<open>stop\<close> is rejected in turn.
\<close>

definition stop :: "'v Simulator \<Rightarrow> 'v Simulator" where
  "stop s =
     (let s1 = s\<lparr>isRunning := False\<rparr>;
          s2 = simulatorLogger_log (stop_record s1) s1;
          s3 = emit StopLogWriter s2
      in s3\<lparr>flushes := flushes s3 + 1\<rparr>)"

definition stop_continue :: "'v + unit \<Rightarrow> 'v Simulator \<Rightarrow> ('v + unit) \<times> 'v Simulator" where
  "stop_continue flushed s =
     (case flushed of
        Inl error \<Rightarrow> (Inl error, s)
      | Inr u \<Rightarrow> (Inr (), process_exit 0 s))"

definition pause :: "'v Simulator \<Rightarrow> 'v Simulator" where
  "pause s =
     (let s1 = s\<lparr>isPaused := True\<rparr>
      in simulatorLogger_log (pause_record s1) s1)"

definition resume :: "'v Simulator \<Rightarrow> 'v Simulator" where
  "resume s =
     (let s1 = s\<lparr>isPaused := False\<rparr>
      in simulatorLogger_log (resume_record s1) s1)"

text \<open>
  The callback given to \<open>rl.question\<close>. On \<open>q\<close>/\<open>Q\<close> it calls \<open>stop()\<close> without
  awaiting it, on \<open>x\<close>/\<open>X\<close> it asks the sandbox for the next event and registers
  \<open>event_callback\<close>; in every case it then closes the interface.
\<close>

definition question_callback :: "string \<Rightarrow> 'v Simulator \<Rightarrow> 'v Simulator" where
  "question_callback answer s =
     emit RlClose
       (if answer = ''q'' \<or> answer = ''Q'' then stop s
        else if answer = ''x'' \<or> answer = ''X'' then
          (emit GetNextEnvironmentEvent s)\<lparr>fetches := fetches s + 1\<rparr>
        else s)"

definition event_callback :: "'v \<Rightarrow> 'v Simulator \<Rightarrow> 'v Simulator" where
  "event_callback generated s = runIteration (emit (ConsoleLog ''Generated event:'' generated) s)"

section \<open>Describing the environment\<close>

text \<open>
  The prompt is a template literal: a double quote, the sentence, a line break, twenty
  spaces, and the environment as \<open>JSON.stringify\<close> prints it.
\<close>

definition describe_prompt :: "string \<Rightarrow> string" where
  "describe_prompt json =
     [CHR 0x22] @ ''Describe the given environment for a simulation. '' @ [CHR 0x0A]
       @ replicate 20 (CHR '' '') @ ''Environment: '' @ json"

definition description_record :: "'v \<Rightarrow> string \<Rightarrow> 'v LifecycleRecord" where
  "description_record env nlDescription =
     \<lparr>event = SYSTEM_LOG, message = ''Describing the environment.'',
      data = Some (EnvironmentDescription env nlDescription)\<rparr>"

definition error_record :: "'v \<Rightarrow> 'v LifecycleRecord" where
  "error_record error =
     \<lparr>event = SYSTEM_LOG, message = ''Error describing the environment.'',
      data = Some (ErrorDetail error)\<rparr>"

text \<open>The \<open>catch\<close> block: report on the console, log, return the empty string.\<close>

definition describeEnvironment_catch :: "'v \<Rightarrow> 'v Simulator \<Rightarrow> ('v + string) \<times> 'v Simulator" where
  "describeEnvironment_catch error s =
     (let s1 = emit (ConsoleError ''Error describing the environment:'' error) s;
          s2 = simulatorLogger_log (error_record error) s1
      in (Inr [], s2))"

text \<open>
  \<open>describeEnvironment\<close> is asynchronous too. \<open>JSON.stringify\<close> and the text-completion
  service \<open>AI.llm\<close> are not part of the class: the first is the parameter \<open>stringify\<close>
  (it throws on a value it cannot print), the second delivers an outcome, \<open>Inl\<close> when it
  fails. \<open>describeEnvironment_begin\<close> runs up to the \<open>await\<close>, \<open>describeEnvironment_continue\<close>
  from there. Both lie inside the \<open>try\<close>, so whatever is thrown reaches the \<open>catch\<close> block.
\<close>

datatype 'v progress = Done "'v + string" | Awaiting string

definition describeEnvironment_begin ::
  "('v \<Rightarrow> 'v + string) \<Rightarrow> 'v Simulator \<Rightarrow> 'v progress \<times> 'v Simulator" where
  "describeEnvironment_begin stringify s =
     (case stringify (environment (options s)) of
        Inl error \<Rightarrow>
          (case describeEnvironment_catch error s of (r, s') \<Rightarrow> (Done r, s'))
      | Inr json \<Rightarrow>
          (Awaiting (describe_prompt json),
           (emit (Llm (describe_prompt json)) s)\<lparr>completions := completions s + 1\<rparr>))"

definition describeEnvironment_continue ::
  "'v + string \<Rightarrow> 'v Simulator \<Rightarrow> ('v + string) \<times> 'v Simulator" where
  "describeEnvironment_continue completed s =
     (case completed of
        Inl error \<Rightarrow> describeEnvironment_catch error s
      | Inr nlDescription \<Rightarrow>
          (Inr nlDescription,
           simulatorLogger_log
             (description_record (environment (options s)) nlDescription) s))"

text \<open>
  The whole call, with a service \<open>llm\<close> that answers the prompt before anything else
  happens. The result is \<open>Inl\<close> if the promise is rejected.
\<close>

definition describeEnvironment ::
  "('v \<Rightarrow> 'v + string) \<Rightarrow> (string \<Rightarrow> 'v + string) \<Rightarrow> 'v Simulator
     \<Rightarrow> ('v + string) \<times> 'v Simulator" where
  "describeEnvironment stringify llm s =
     (case describeEnvironment_begin stringify s of
        (Done r, s') \<Rightarrow> (r, s')
      | (Awaiting prompt, s') \<Rightarrow>
          describeEnvironment_continue (llm prompt)
            (s'\<lparr>completions := completions s' - 1\<rparr>))"

section \<open>Runs\<close>

text \<open>
  What can happen to a simulator: a method is called from outside, or one of the
  outstanding callbacks is run: the operator answers a prompt, the sandbox delivers
  an event or fails, \<open>stopLogWriter\<close> settles, the text completion settles.
\<close>

datatype 'v input =
  Call_start
| Call_stop
| Call_pause
| Call_resume
| Call_runSimulation
| Call_runIteration
| Call_describeEnvironment
| Answer string
| EventResolved 'v
| EventRejected 'v
| FlushSettled "'v + unit"
| CompletionSettled "'v + string"

text \<open>
  Every \<open>runIteration\<close> creates an interface of its own on the same standard input, so a
  line typed by the operator reaches all of them: the callback of every outstanding
  question runs with that line, in the order in which the questions were asked.
\<close>

fun question_callbacks :: "nat \<Rightarrow> string \<Rightarrow> 'v Simulator \<Rightarrow> 'v Simulator" where
  "question_callbacks 0 answer s = s"
| "question_callbacks (Suc n) answer s =
     question_callbacks n answer (question_callback answer s)"

text \<open>
  A promise that is rejected and has no handler. The class handles no rejection but that
  of the text completion: the prompt callback drops the promise of \<open>stop()\<close>, and the
  event promise gets a \<open>then\<close> callback only. The host (Node.js from version 15 on, by
  default) raises such a rejection as an uncaught exception, which ends the process with
  status 1; no effect of the class is involved. A call of \<open>stop()\<close> from outside is taken
  to drop the promise as the class's own call does.
\<close>

definition unhandled_rejection :: "'v \<Rightarrow> 'v Simulator \<Rightarrow> 'v Simulator" where
  "unhandled_rejection error s = s\<lparr>exitStatus := Some 1\<rparr>"

text \<open>
  One step. Nothing runs in a process that has ended, and a callback runs only if it is
  outstanding. The \<open>then\<close> callback of a rejected event promise is skipped.
\<close>

definition step :: "('v \<Rightarrow> 'v + string) \<Rightarrow> 'v input \<Rightarrow> 'v Simulator \<Rightarrow> 'v Simulator" where
  "step stringify i s =
     (if exitStatus s \<noteq> None then s
      else case i of
        Call_start \<Rightarrow> start s
      | Call_stop \<Rightarrow> stop s
      | Call_pause \<Rightarrow> pause s
      | Call_resume \<Rightarrow> resume s
      | Call_runSimulation \<Rightarrow> runSimulation s
      | Call_runIteration \<Rightarrow> runIteration s
      | Call_describeEnvironment \<Rightarrow> snd (describeEnvironment_begin stringify s)
      | Answer answer \<Rightarrow>
          question_callbacks (questions s) answer (s\<lparr>questions := 0\<rparr>)
      | EventResolved generated \<Rightarrow>
          if fetches s = 0 then s
          else event_callback generated (s\<lparr>fetches := fetches s - 1\<rparr>)
      | EventRejected error \<Rightarrow>
          if fetches s = 0 then s
          else unhandled_rejection error (s\<lparr>fetches := fetches s - 1\<rparr>)
      | FlushSettled flushed \<Rightarrow>
          if flushes s = 0 then s
          else
            (case stop_continue flushed (s\<lparr>flushes := flushes s - 1\<rparr>) of
               (Inl error, s') \<Rightarrow> unhandled_rejection error s'
             | (Inr u, s') \<Rightarrow> s')
      | CompletionSettled completed \<Rightarrow>
          if completions s = 0 then s
          else snd (describeEnvironment_continue completed
                      (s\<lparr>completions := completions s - 1\<rparr>)))"

fun run :: "('v \<Rightarrow> 'v + string) \<Rightarrow> 'v input list \<Rightarrow> 'v Simulator \<Rightarrow> 'v Simulator" where
  "run stringify [] s = s"
| "run stringify (i # rest) s = run stringify rest (step stringify i s)"

text \<open>What an observer of the trace counts: the records logged and the events asked for.\<close>

fun records :: "'v effect list \<Rightarrow> 'v LifecycleRecord list" where
  "records [] = []"
| "records (Log r # es) = r # records es"
| "records (e # es) = records es"

definition fetch_count :: "'v effect list \<Rightarrow> nat" where
  "fetch_count es = length (filter (\<lambda>e. e = GetNextEnvironmentEvent) es)"

section \<open>Example inputs\<close>

text \<open>
  The configuration of the spec's end-to-end scenario, \<open>{name: "T1", environment: ...}\<close>
  with every optional field unset, and one that supplies a falsy value for every
  optional field that has one.
\<close>

definition T1_options :: "string SimulatorOptions" where
  "T1_options =
     \<lparr> name = ''T1'', description = None, iterations = None, numSentients = None,
       numNonSentients = None, maxPopulationSize = None, godEventProbability = None,
       spawnRate = None, verbose = None, temperature = None, mode = None, data = None,
       environment = ''grid'' \<rparr>"

definition falsy_options :: "string SimulatorOptions" where
  "falsy_options =
     \<lparr> name = ''T1'', description = Some [], iterations = Some (Fin 0),
       numSentients = Some NaN, numNonSentients = Some NegZero,
       maxPopulationSize = Some (Fin 0), godEventProbability = Some (Fin 0),
       spawnRate = Some (Fin 0), verbose = Some False, temperature = Some (Fin 0),
       mode = Some [], data = Some [],
       environment = ''grid'' \<rparr>"

text \<open>
  A stand-in for \<open>JSON.stringify\<close> on environments that are strings: the string in
  double quotes.
\<close>

definition json_of_string :: "string \<Rightarrow> string + string" where
  "json_of_string v = Inr ([CHR 0x22] @ v @ [CHR 0x22])"

text \<open>The same simulator with another resolved \<open>iterations\<close> field.\<close>

definition with_iterations :: "number option \<Rightarrow> 'v Simulator \<Rightarrow> 'v Simulator" where
  "with_iterations k s = s\<lparr>options := (options s)\<lparr>iterations := k\<rparr>\<rparr>"

section \<open>The default merge\<close>

lemma or_default_None: "or_default t None d = Some d"
  by (simp add: or_default_def)

lemma or_default_falsy: "\<not> t v \<Longrightarrow> or_default t (Some v) d = Some d"
  by (simp add: or_default_def)

lemma or_default_truthy: "t v \<Longrightarrow> or_default t (Some v) d = Some v"
  by (simp add: or_default_def)

lemma or_default_result: "t d \<Longrightarrow> \<exists>v. or_default t x d = Some v \<and> t v"
  by (cases x) (simp_all add: or_default_def)

text \<open>
  Claim C8. Whatever the configuration, \<open>initOptionsWithDefaults\<close> keeps \<open>name\<close> and
  \<open>environment\<close> as they are, and every optional field that is unset comes out as its
  default: the placeholder description, 1000 iterations, 10 sentients, 10 non-sentients,
  a maximal population of 100, god event probability 0.1, spawn rate 0.1, temperature
  0.5, mode \<open>normal\<close>, not verbose, no data.
\<close>

theorem defaults_for_unset_fields:
  "name (initOptionsWithDefaults opts) = name opts \<and>
   environment (initOptionsWithDefaults opts) = environment opts \<and>
   (description opts = None \<longrightarrow>
      description (initOptionsWithDefaults opts) =
        Some ''a generic simulation with nothing special'') \<and>
   (iterations opts = None \<longrightarrow> iterations (initOptionsWithDefaults opts) = Some (Fin 1000)) \<and>
   (numSentients opts = None \<longrightarrow> numSentients (initOptionsWithDefaults opts) = Some (Fin 10)) \<and>
   (numNonSentients opts = None \<longrightarrow>
      numNonSentients (initOptionsWithDefaults opts) = Some (Fin 10)) \<and>
   (maxPopulationSize opts = None \<longrightarrow>
      maxPopulationSize (initOptionsWithDefaults opts) = Some (Fin 100)) \<and>
   (godEventProbability opts = None \<longrightarrow>
      godEventProbability (initOptionsWithDefaults opts) = Some (Fin (1 / 10))) \<and>
   (spawnRate opts = None \<longrightarrow> spawnRate (initOptionsWithDefaults opts) = Some (Fin (1 / 10))) \<and>
   (temperature opts = None \<longrightarrow>
      temperature (initOptionsWithDefaults opts) = Some (Fin (1 / 2))) \<and>
   (mode opts = None \<longrightarrow> mode (initOptionsWithDefaults opts) = Some ''normal'') \<and>
   (verbose opts = None \<longrightarrow> verbose (initOptionsWithDefaults opts) = Some False) \<and>
   (SimulatorOptions.data opts = None \<longrightarrow>
      SimulatorOptions.data (initOptionsWithDefaults opts) = Some [])"
  by (simp add: initOptionsWithDefaults_def or_default_None)

text \<open>
  C8 at the configuration \<open>T1\<close>, where every optional field is unset: the resolved
  configuration holds every default.
\<close>

theorem defaults_for_unset_fields_witness:
  "initOptionsWithDefaults T1_options =
     \<lparr> name = ''T1'',
       description = Some ''a generic simulation with nothing special'',
       iterations = Some (Fin 1000), numSentients = Some (Fin 10),
       numNonSentients = Some (Fin 10), maxPopulationSize = Some (Fin 100),
       godEventProbability = Some (Fin (1 / 10)), spawnRate = Some (Fin (1 / 10)),
       verbose = Some False, temperature = Some (Fin (1 / 2)), mode = Some ''normal'',
       data = Some [], environment = ''grid'' \<rparr>"
  using defaults_for_unset_fields [of T1_options]
  by (simp add: T1_options_def)

text \<open>
  Claim C10. The merge tests truthiness, not presence. Whatever the configuration, a
  supplied value that is falsy (the empty string for \<open>description\<close> and \<open>mode\<close>; \<open>0\<close>,
  \<open>-0\<close> or \<open>NaN\<close> for a numeric field; \<open>false\<close> for \<open>verbose\<close>) is replaced by the
  default of its field. Hence the resolved \<open>temperature\<close> and \<open>iterations\<close> are always
  truthy numbers, never \<open>0\<close>.
\<close>

theorem falsy_values_replaced:
  "(\<forall>v. description opts = Some v \<and> \<not> truthy_string v \<longrightarrow>
      description (initOptionsWithDefaults opts) =
        Some ''a generic simulation with nothing special'') \<and>
   (\<forall>v. iterations opts = Some v \<and> \<not> truthy_number v \<longrightarrow>
      iterations (initOptionsWithDefaults opts) = Some (Fin 1000)) \<and>
   (\<forall>v. numSentients opts = Some v \<and> \<not> truthy_number v \<longrightarrow>
      numSentients (initOptionsWithDefaults opts) = Some (Fin 10)) \<and>
   (\<forall>v. numNonSentients opts = Some v \<and> \<not> truthy_number v \<longrightarrow>
      numNonSentients (initOptionsWithDefaults opts) = Some (Fin 10)) \<and>
   (\<forall>v. maxPopulationSize opts = Some v \<and> \<not> truthy_number v \<longrightarrow>
      maxPopulationSize (initOptionsWithDefaults opts) = Some (Fin 100)) \<and>
   (\<forall>v. godEventProbability opts = Some v \<and> \<not> truthy_number v \<longrightarrow>
      godEventProbability (initOptionsWithDefaults opts) = Some (Fin (1 / 10))) \<and>
   (\<forall>v. spawnRate opts = Some v \<and> \<not> truthy_number v \<longrightarrow>
      spawnRate (initOptionsWithDefaults opts) = Some (Fin (1 / 10))) \<and>
   (\<forall>v. temperature opts = Some v \<and> \<not> truthy_number v \<longrightarrow>
      temperature (initOptionsWithDefaults opts) = Some (Fin (1 / 2))) \<and>
   (\<forall>v. mode opts = Some v \<and> \<not> truthy_string v \<longrightarrow>
      mode (initOptionsWithDefaults opts) = Some ''normal'') \<and>
   (verbose opts = Some False \<longrightarrow> verbose (initOptionsWithDefaults opts) = Some False) \<and>
   (\<exists>v. temperature (initOptionsWithDefaults opts) = Some v \<and> truthy_number v) \<and>
   (\<exists>v. iterations (initOptionsWithDefaults opts) = Some v \<and> truthy_number v) \<and>
   temperature (initOptionsWithDefaults opts) \<noteq> Some (Fin 0) \<and>
   iterations (initOptionsWithDefaults opts) \<noteq> Some (Fin 0)"
proof -
  have t: "\<exists>v. temperature (initOptionsWithDefaults opts) = Some v \<and> truthy_number v"
    by (simp add: initOptionsWithDefaults_def or_default_result)
  have i: "\<exists>v. iterations (initOptionsWithDefaults opts) = Some v \<and> truthy_number v"
    by (simp add: initOptionsWithDefaults_def or_default_result)
  from t have t0: "temperature (initOptionsWithDefaults opts) \<noteq> Some (Fin 0)" by auto
  from i have i0: "iterations (initOptionsWithDefaults opts) \<noteq> Some (Fin 0)" by auto
  have "\<forall>v. description opts = Some v \<and> \<not> truthy_string v \<longrightarrow>
      description (initOptionsWithDefaults opts) =
        Some ''a generic simulation with nothing special''"
    by (simp add: initOptionsWithDefaults_def or_default_falsy)
  moreover have "\<forall>v. iterations opts = Some v \<and> \<not> truthy_number v \<longrightarrow>
      iterations (initOptionsWithDefaults opts) = Some (Fin 1000)"
    by (simp add: initOptionsWithDefaults_def or_default_falsy)
  moreover have "\<forall>v. numSentients opts = Some v \<and> \<not> truthy_number v \<longrightarrow>
      numSentients (initOptionsWithDefaults opts) = Some (Fin 10)"
    by (simp add: initOptionsWithDefaults_def or_default_falsy)
  moreover have "\<forall>v. numNonSentients opts = Some v \<and> \<not> truthy_number v \<longrightarrow>
      numNonSentients (initOptionsWithDefaults opts) = Some (Fin 10)"
    by (simp add: initOptionsWithDefaults_def or_default_falsy)
  moreover have "\<forall>v. maxPopulationSize opts = Some v \<and> \<not> truthy_number v \<longrightarrow>
      maxPopulationSize (initOptionsWithDefaults opts) = Some (Fin 100)"
    by (simp add: initOptionsWithDefaults_def or_default_falsy)
  moreover have "\<forall>v. godEventProbability opts = Some v \<and> \<not> truthy_number v \<longrightarrow>
      godEventProbability (initOptionsWithDefaults opts) = Some (Fin (1 / 10))"
    by (simp add: initOptionsWithDefaults_def or_default_falsy)
  moreover have "\<forall>v. spawnRate opts = Some v \<and> \<not> truthy_number v \<longrightarrow>
      spawnRate (initOptionsWithDefaults opts) = Some (Fin (1 / 10))"
    by (simp add: initOptionsWithDefaults_def or_default_falsy)
  moreover have "\<forall>v. temperature opts = Some v \<and> \<not> truthy_number v \<longrightarrow>
      temperature (initOptionsWithDefaults opts) = Some (Fin (1 / 2))"
    by (simp add: initOptionsWithDefaults_def or_default_falsy)
  moreover have "\<forall>v. mode opts = Some v \<and> \<not> truthy_string v \<longrightarrow>
      mode (initOptionsWithDefaults opts) = Some ''normal''"
    by (simp add: initOptionsWithDefaults_def or_default_falsy)
  moreover have "verbose opts = Some False \<longrightarrow>
      verbose (initOptionsWithDefaults opts) = Some False"
    by (simp add: initOptionsWithDefaults_def or_default_def)
  ultimately show ?thesis using t i t0 i0 by blast
qed

text \<open>
  C10 at a configuration that supplies \<open>""\<close>, \<open>0\<close>, \<open>-0\<close>, \<open>NaN\<close> and \<open>false\<close>: every
  one of them is replaced by the default.
\<close>

theorem falsy_values_replaced_witness:
  "description (initOptionsWithDefaults falsy_options) =
     Some ''a generic simulation with nothing special'' \<and>
   iterations (initOptionsWithDefaults falsy_options) = Some (Fin 1000) \<and>
   numSentients (initOptionsWithDefaults falsy_options) = Some (Fin 10) \<and>
   numNonSentients (initOptionsWithDefaults falsy_options) = Some (Fin 10) \<and>
   maxPopulationSize (initOptionsWithDefaults falsy_options) = Some (Fin 100) \<and>
   godEventProbability (initOptionsWithDefaults falsy_options) = Some (Fin (1 / 10)) \<and>
   spawnRate (initOptionsWithDefaults falsy_options) = Some (Fin (1 / 10)) \<and>
   temperature (initOptionsWithDefaults falsy_options) = Some (Fin (1 / 2)) \<and>
   mode (initOptionsWithDefaults falsy_options) = Some ''normal'' \<and>
   verbose (initOptionsWithDefaults falsy_options) = Some False"
proof -
  have supplied:
    "description falsy_options = Some []" "iterations falsy_options = Some (Fin 0)"
    "numSentients falsy_options = Some NaN" "numNonSentients falsy_options = Some NegZero"
    "maxPopulationSize falsy_options = Some (Fin 0)"
    "godEventProbability falsy_options = Some (Fin 0)"
    "spawnRate falsy_options = Some (Fin 0)" "temperature falsy_options = Some (Fin 0)"
    "mode falsy_options = Some []" "verbose falsy_options = Some False"
    by (simp_all add: falsy_options_def)
  show ?thesis
    using falsy_values_replaced [of falsy_options]
    by (simp add: supplied truthy_string_def)
qed

section \<open>What each operation does to the simulator\<close>

lemmas record_defs =
  start_record_def stop_record_def pause_record_def resume_record_def iteration_record_def
  simulation_message_def

lemmas operation_defs =
  emit_def simulatorLogger_log_def getRunningState_def runIteration_def runSimulation_def
  start_def stop_def stop_continue_def process_exit_def pause_def resume_def
  question_callback_def event_callback_def

lemma records_append: "records (xs @ ys) = records xs @ records ys"
  by (induction xs rule: records.induct) simp_all

lemma fetch_count_append: "fetch_count (xs @ ys) = fetch_count xs + fetch_count ys"
  by (simp add: fetch_count_def)

lemma runIteration_paused: "isPaused s \<Longrightarrow> runIteration s = s"
  by (simp add: runIteration_def)

lemma runIteration_not_paused:
  "\<not> isPaused s \<Longrightarrow>
     runIteration s =
       s\<lparr>trace := trace s @ [Log (iteration_record s), CreateInterface, Question question_prompt],
         questions := questions s + 1\<rparr>"
  by (simp add: runIteration_def emit_def simulatorLogger_log_def Let_def)

lemma start_eq:
  "start s =
     s\<lparr>isRunning := True,
       trace := trace s @ Log (start_record s) #
         (if isPaused s then []
          else [Log (iteration_record s), CreateInterface, Question question_prompt]),
       questions := questions s + (if isPaused s then 0 else 1)\<rparr>"
  by (simp add: operation_defs record_defs Let_def)

lemma stop_eq:
  "stop s =
     s\<lparr>isRunning := False,
       trace := trace s @ [Log (stop_record s), StopLogWriter],
       flushes := flushes s + 1\<rparr>"
  by (simp add: operation_defs record_defs Let_def)

lemma pause_eq:
  "pause s = s\<lparr>isPaused := True, trace := trace s @ [Log (pause_record s)]\<rparr>"
  by (simp add: operation_defs record_defs Let_def)

lemma resume_eq:
  "resume s = s\<lparr>isPaused := False, trace := trace s @ [Log (resume_record s)]\<rparr>"
  by (simp add: operation_defs record_defs Let_def)

section \<open>Starting twice\<close>

text \<open>
  Claim C1 says that \<open>start()\<close> on a simulator that is already running changes nothing
  and logs nothing. \<open>start\<close> has no guard. Counterexample: a new simulator for \<open>T1\<close>,
  started once, is running and has logged a start record and an iteration record with one
  prompt outstanding; started again it has logged both once more and has two prompts
  outstanding.
\<close>

theorem start_twice_counterexample:
  "isRunning (start (new_Simulator T1_options)) \<and>
   start (start (new_Simulator T1_options)) \<noteq> start (new_Simulator T1_options) \<and>
   map event (records (trace (start (new_Simulator T1_options)))) =
     [SIMULATOR_START, SYSTEM_LOG] \<and>
   map event (records (trace (start (start (new_Simulator T1_options))))) =
     [SIMULATOR_START, SYSTEM_LOG, SIMULATOR_START, SYSTEM_LOG] \<and>
   questions (start (new_Simulator T1_options)) = 1 \<and>
   questions (start (start (new_Simulator T1_options))) = 2"
proof -
  have "questions (start (start (new_Simulator T1_options))) = 2"
    by (simp add: start_eq new_Simulator_def)
  moreover have "questions (start (new_Simulator T1_options)) = 1"
    by (simp add: start_eq new_Simulator_def)
  ultimately have "start (start (new_Simulator T1_options)) \<noteq> start (new_Simulator T1_options)"
    by auto
  then show ?thesis
    by (simp add: start_eq new_Simulator_def record_defs)
qed

text \<open>
  Claim C1 as amended. Called while \<open>isRunning\<close> is already true, \<open>start()\<close> leaves
  \<open>isRunning\<close> true and \<open>isPaused\<close> as it was, logs one more \<open>SIMULATOR_START\<close> record
  and calls \<open>runSimulation\<close> again: unless the simulator is paused this begins another
  iteration, with one more \<open>SYSTEM_LOG\<close> record and one more prompt.
\<close>

theorem start_while_running:
  "isRunning s \<Longrightarrow>
     isRunning (start s) \<and>
     isPaused (start s) = isPaused s \<and>
     trace (start s) =
       trace s @ Log (start_record s) #
         (if isPaused s then []
          else [Log (iteration_record s), CreateInterface, Question question_prompt]) \<and>
     records (trace (start s)) =
       records (trace s) @ start_record s #
         (if isPaused s then [] else [iteration_record s]) \<and>
     questions (start s) = questions s + (if isPaused s then 0 else 1)"
  by (simp add: start_eq records_append)

text \<open>The amended C1 at the started simulator for \<open>T1\<close>, which is running and not paused.\<close>

theorem start_while_running_witness:
  "isRunning (start (new_Simulator T1_options)) \<and>
   isRunning (start (start (new_Simulator T1_options))) \<and>
   records (trace (start (start (new_Simulator T1_options)))) =
     records (trace (start (new_Simulator T1_options))) @
       [start_record (start (new_Simulator T1_options)),
        iteration_record (start (new_Simulator T1_options))] \<and>
   questions (start (start (new_Simulator T1_options))) =
     questions (start (new_Simulator T1_options)) + 1"
proof -
  have r: "isRunning (start (new_Simulator T1_options))"
    and p: "\<not> isPaused (start (new_Simulator T1_options))"
    by (simp_all add: start_eq new_Simulator_def)
  show ?thesis
    using start_while_running [OF r] r p by (simp add: records_append)
qed

section \<open>Resuming\<close>

lemma resume_schedules_nothing:
  "isPaused (resume s) = False \<and>
   isRunning (resume s) = isRunning s \<and>
   trace (resume s) = trace s @ [Log (resume_record s)] \<and>
   questions (resume s) = questions s \<and> fetches (resume s) = fetches s"
  by (simp add: resume_eq)

text \<open>
  Claim C2 says that \<open>resume()\<close> re-enters the iteration sequence when \<open>isRunning\<close> is
  still true. In the code it clears \<open>isPaused\<close> and logs \<open>SIMULATOR_RESUME\<close>, nothing more.
  The run below is started, paused while the first prompt is outstanding, answered with
  \<open>x\<close>, given its event (the next \<open>runIteration\<close> returns at once, the simulator being
  paused), and resumed. Afterwards it is running and not paused, no iteration record
  follows the resume record, and no prompt, event or flush is outstanding: a further
  answer of the operator finds no prompt, and the run has stalled.
\<close>

theorem resume_does_not_reenter:
  "isRunning (run json_of_string
      [Call_start, Call_pause, Answer ''x'', EventResolved ''e1'', Call_resume]
      (new_Simulator T1_options)) \<and>
   \<not> isPaused (run json_of_string
      [Call_start, Call_pause, Answer ''x'', EventResolved ''e1'', Call_resume]
      (new_Simulator T1_options)) \<and>
   map event (records (trace (run json_of_string
      [Call_start, Call_pause, Answer ''x'', EventResolved ''e1'', Call_resume]
      (new_Simulator T1_options)))) =
     [SIMULATOR_START, SYSTEM_LOG, SIMULATOR_PAUSE, SIMULATOR_RESUME] \<and>
   questions (run json_of_string
      [Call_start, Call_pause, Answer ''x'', EventResolved ''e1'', Call_resume]
      (new_Simulator T1_options)) = 0 \<and>
   fetches (run json_of_string
      [Call_start, Call_pause, Answer ''x'', EventResolved ''e1'', Call_resume]
      (new_Simulator T1_options)) = 0 \<and>
   flushes (run json_of_string
      [Call_start, Call_pause, Answer ''x'', EventResolved ''e1'', Call_resume]
      (new_Simulator T1_options)) = 0 \<and>
   exitStatus (run json_of_string
      [Call_start, Call_pause, Answer ''x'', EventResolved ''e1'', Call_resume]
      (new_Simulator T1_options)) = None \<and>
   run json_of_string
      [Call_start, Call_pause, Answer ''x'', EventResolved ''e1'', Call_resume, Answer ''x'']
      (new_Simulator T1_options) =
     run json_of_string
      [Call_start, Call_pause, Answer ''x'', EventResolved ''e1'', Call_resume]
      (new_Simulator T1_options)"
  by (simp add: step_def start_eq pause_eq resume_eq question_callback_def event_callback_def
      runIteration_def emit_def new_Simulator_def record_defs)

section \<open>Stopping\<close>

lemma exitStatus_question_callback:
  "exitStatus (question_callback answer s) = exitStatus s"
  by (simp add: question_callback_def stop_eq emit_def)

lemma exitStatus_question_callbacks:
  "exitStatus (question_callbacks n answer s) = exitStatus s"
  by (induction n arbitrary: s) (simp_all add: exitStatus_question_callback)

lemma exitStatus_runIteration: "exitStatus (runIteration s) = exitStatus s"
  by (cases "isPaused s") (simp_all add: runIteration_paused runIteration_not_paused)

lemma exitStatus_describeEnvironment_begin:
  "exitStatus (snd (describeEnvironment_begin stringify s)) = exitStatus s"
  by (simp add: describeEnvironment_begin_def describeEnvironment_catch_def emit_def
      simulatorLogger_log_def Let_def split: sum.splits)

lemma exitStatus_describeEnvironment_continue:
  "exitStatus (snd (describeEnvironment_continue completed s)) = exitStatus s"
  by (simp add: describeEnvironment_continue_def describeEnvironment_catch_def emit_def
      simulatorLogger_log_def Let_def split: sum.splits)

lemma exit_step:
  assumes "exitStatus s = None" and "exitStatus (step stringify i s) = Some code"
  shows "code = 0 \<and> i = FlushSettled (Inr ()) \<and> 0 < flushes s \<and>
           trace (step stringify i s) = trace s @ [ProcessExit 0] \<or>
         code = 1 \<and> trace (step stringify i s) = trace s \<and>
           ((\<exists>error. i = FlushSettled (Inl error)) \<and> 0 < flushes s \<or>
            (\<exists>error. i = EventRejected error) \<and> 0 < fetches s)"
proof (cases i)
  case (Answer answer)
  with assms show ?thesis
    by (simp add: step_def exitStatus_question_callbacks)
next
  case (EventResolved generated)
  with assms show ?thesis
    by (simp add: step_def event_callback_def exitStatus_runIteration emit_def
        split: if_splits)
next
  case (EventRejected error)
  with assms show ?thesis
    by (auto simp add: step_def unhandled_rejection_def split: if_splits)
next
  case (FlushSettled flushed)
  with assms show ?thesis
    by (cases flushed)
      (auto simp add: step_def stop_continue_def process_exit_def emit_def
        unhandled_rejection_def split: if_splits)
next
  case (CompletionSettled completed)
  with assms show ?thesis
    by (simp add: step_def exitStatus_describeEnvironment_continue split: if_splits)
next
  case Call_describeEnvironment
  with assms show ?thesis
    by (simp add: step_def exitStatus_describeEnvironment_begin)
qed (use assms in \<open>simp_all add: step_def start_eq stop_eq pause_eq resume_eq
      runSimulation_def exitStatus_runIteration split: if_splits\<close>)

text \<open>
  Claim C3 says that the flush always completes before the process ends and that the
  exit status is always 0. \<open>stop\<close> awaits \<open>stopLogWriter()\<close> outside any \<open>try\<close>, and the
  prompt callback drops the promise of \<open>stop()\<close>. Counterexample: the run for \<open>T1\<close> that
  is started and answered with \<open>q\<close>, and whose flush fails. The stop record is logged and
  \<open>stopLogWriter\<close> is called, \<open>process.exit\<close> is not, and the process has ended with
  status 1, the flush not having completed.
\<close>

theorem stop_flush_rejected_counterexample:
  "exitStatus (run json_of_string [Call_start, Answer ''q'', FlushSettled (Inl ''boom'')]
     (new_Simulator T1_options)) = Some 1 \<and>
   trace (run json_of_string [Call_start, Answer ''q'', FlushSettled (Inl ''boom'')]
     (new_Simulator T1_options)) =
     [Log \<lparr>event = SIMULATOR_START, message = ''SIMULATION 'T1' started.'', data = None\<rparr>,
      Log \<lparr>event = SYSTEM_LOG, message = ''Running iteration for SIMULATION 'T1'.'',
           data = None\<rparr>,
      CreateInterface,
      Question ''Press 'x' to continue simulation and 'q' to exit:'',
      Log \<lparr>event = SIMULATOR_STOP, message = ''SIMULATION 'T1' stopped.'', data = None\<rparr>,
      StopLogWriter,
      RlClose]"
  by (simp add: step_def start_eq question_callback_def stop_eq stop_continue_def
      unhandled_rejection_def emit_def new_Simulator_def initOptionsWithDefaults_def
      T1_options_def record_defs question_prompt_def)

text \<open>
  Claim C3 as amended. \<open>stop()\<close> sets \<open>isRunning\<close> to false, logs the \<open>SIMULATOR_STOP\<close>
  record and calls \<open>stopLogWriter\<close>, in this order, and does not end the process before
  that promise settles. When the flush completes, \<open>stop\<close> then calls \<open>process.exit(0)\<close>:
  a call of \<open>stop\<close> followed by the completion of the flush leaves the effects stop
  record, \<open>stopLogWriter\<close>, exit 0, and status 0. When the flush fails, \<open>stop\<close> does not
  call \<open>process.exit\<close>; its promise is rejected, nothing handles it, and the process ends
  with status 1. In any step whatever, the process ends either with status 0, in the
  continuation of a \<open>stop\<close> whose flush has completed, or with status 1 and no effect
  of the class, on a rejected flush or a rejected event promise.
\<close>

theorem stop_exits_zero_after_flush:
  "isRunning (stop s) = False \<and>
   trace (stop s) =
     trace s @
       [Log \<lparr>event = SIMULATOR_STOP,
              message = ''SIMULATION '' @ [CHR 0x27] @ name (options s) @ [CHR 0x27] @ '' stopped.'',
              data = None\<rparr>,
        StopLogWriter] \<and>
   flushes (stop s) = flushes s + 1 \<and>
   exitStatus (stop s) = exitStatus s \<and>
   stop_continue (Inr ()) (stop s) =
     (Inr (), (stop s)\<lparr>trace := trace (stop s) @ [ProcessExit 0], exitStatus := Some 0\<rparr>) \<and>
   stop_continue (Inl error) (stop s) = (Inl error, stop s) \<and>
   (exitStatus s = None \<longrightarrow>
      trace (run stringify [Call_stop, FlushSettled (Inr ())] s) =
        trace s @
          [Log \<lparr>event = SIMULATOR_STOP,
                 message =
                   ''SIMULATION '' @ [CHR 0x27] @ name (options s) @ [CHR 0x27] @ '' stopped.'',
                 data = None\<rparr>,
           StopLogWriter, ProcessExit 0] \<and>
      isRunning (run stringify [Call_stop, FlushSettled (Inr ())] s) = False \<and>
      exitStatus (run stringify [Call_stop, FlushSettled (Inr ())] s) = Some 0 \<and>
      trace (run stringify [Call_stop, FlushSettled (Inl error)] s) = trace (stop s) \<and>
      isRunning (run stringify [Call_stop, FlushSettled (Inl error)] s) = False \<and>
      exitStatus (run stringify [Call_stop, FlushSettled (Inl error)] s) = Some 1) \<and>
   (exitStatus s = None \<and> exitStatus (step stringify i s) = Some code \<longrightarrow>
      code = 0 \<and> i = FlushSettled (Inr ()) \<and> 0 < flushes s \<and>
        trace (step stringify i s) = trace s @ [ProcessExit 0] \<or>
      code = 1 \<and> trace (step stringify i s) = trace s \<and>
        ((\<exists>error. i = FlushSettled (Inl error)) \<and> 0 < flushes s \<or>
         (\<exists>error. i = EventRejected error) \<and> 0 < fetches s))"
proof -
  have a: "isRunning (stop s) = False \<and>
     trace (stop s) =
       trace s @
         [Log \<lparr>event = SIMULATOR_STOP,
                message =
                  ''SIMULATION '' @ [CHR 0x27] @ name (options s) @ [CHR 0x27] @ '' stopped.'',
                data = None\<rparr>,
          StopLogWriter] \<and>
     flushes (stop s) = flushes s + 1 \<and>
     exitStatus (stop s) = exitStatus s"
    by (simp add: stop_eq record_defs)
  have b: "stop_continue (Inr ()) (stop s) =
     (Inr (), (stop s)\<lparr>trace := trace (stop s) @ [ProcessExit 0], exitStatus := Some 0\<rparr>)"
    by (simp add: stop_continue_def process_exit_def emit_def)
  have c: "stop_continue (Inl error) (stop s) = (Inl error, stop s)"
    by (simp add: stop_continue_def)
  have d: "exitStatus s = None \<longrightarrow>
      trace (run stringify [Call_stop, FlushSettled (Inr ())] s) =
        trace s @
          [Log \<lparr>event = SIMULATOR_STOP,
                 message =
                   ''SIMULATION '' @ [CHR 0x27] @ name (options s) @ [CHR 0x27] @ '' stopped.'',
                 data = None\<rparr>,
           StopLogWriter, ProcessExit 0] \<and>
      isRunning (run stringify [Call_stop, FlushSettled (Inr ())] s) = False \<and>
      exitStatus (run stringify [Call_stop, FlushSettled (Inr ())] s) = Some 0 \<and>
      trace (run stringify [Call_stop, FlushSettled (Inl error)] s) = trace (stop s) \<and>
      isRunning (run stringify [Call_stop, FlushSettled (Inl error)] s) = False \<and>
      exitStatus (run stringify [Call_stop, FlushSettled (Inl error)] s) = Some 1"
    by (simp add: step_def stop_eq stop_continue_def process_exit_def emit_def
        unhandled_rejection_def record_defs)
  have e: "exitStatus s = None \<and> exitStatus (step stringify i s) = Some code \<longrightarrow>
      code = 0 \<and> i = FlushSettled (Inr ()) \<and> 0 < flushes s \<and>
        trace (step stringify i s) = trace s @ [ProcessExit 0] \<or>
      code = 1 \<and> trace (step stringify i s) = trace s \<and>
        ((\<exists>error. i = FlushSettled (Inl error)) \<and> 0 < flushes s \<or>
         (\<exists>error. i = EventRejected error) \<and> 0 < fetches s)"
    using exit_step [of s stringify i code] by blast
  from a b c d e show ?thesis by blast
qed

text \<open>
  The amended C3 at the new simulator for \<open>T1\<close>: stopped and flushed it has exited
  with status 0, after the stop record and the call of \<open>stopLogWriter\<close>; stopped and
  with a failed flush it has ended with status 1.
\<close>

theorem stop_exits_zero_after_flush_witness:
  "exitStatus (new_Simulator T1_options) = None \<and>
   trace (run json_of_string [Call_stop, FlushSettled (Inr ())] (new_Simulator T1_options)) =
     [Log \<lparr>event = SIMULATOR_STOP, message = ''SIMULATION 'T1' stopped.'', data = None\<rparr>,
      StopLogWriter, ProcessExit 0] \<and>
   exitStatus (run json_of_string [Call_stop, FlushSettled (Inr ())]
     (new_Simulator T1_options)) = Some 0 \<and>
   exitStatus (run json_of_string [Call_stop, FlushSettled (Inl ''boom'')]
     (new_Simulator T1_options)) = Some 1 \<and>
   exitStatus (stop (new_Simulator T1_options)) = None \<and>
   exitStatus (step json_of_string (FlushSettled (Inr ())) (stop (new_Simulator T1_options))) =
     Some 0 \<and>
   0 < flushes (stop (new_Simulator T1_options)) \<and>
   trace (step json_of_string (FlushSettled (Inr ())) (stop (new_Simulator T1_options))) =
     trace (stop (new_Simulator T1_options)) @ [ProcessExit 0]"
proof -
  have live: "exitStatus (new_Simulator T1_options) = None"
    and empty: "trace (new_Simulator T1_options) = []"
    and named: "name (options (new_Simulator T1_options)) = ''T1''"
    by (simp_all add: new_Simulator_def initOptionsWithDefaults_def T1_options_def)
  have live': "exitStatus (stop (new_Simulator T1_options)) = None"
    by (simp add: stop_eq live)
  have exits:
    "exitStatus (step json_of_string (FlushSettled (Inr ())) (stop (new_Simulator T1_options))) =
       Some 0"
    by (simp add: step_def stop_eq live stop_continue_def process_exit_def emit_def)
  note at_new =
    stop_exits_zero_after_flush
      [where s = "new_Simulator T1_options" and stringify = json_of_string
         and error = "''boom''" and i = Call_stop and code = 0]
  note at_stopped =
    stop_exits_zero_after_flush
      [where s = "stop (new_Simulator T1_options)" and stringify = json_of_string
         and error = "''boom''" and i = "FlushSettled (Inr ())" and code = 0]
  from at_new live have flushed:
    "trace (run json_of_string [Call_stop, FlushSettled (Inr ())] (new_Simulator T1_options)) =
       trace (new_Simulator T1_options) @
         [Log \<lparr>event = SIMULATOR_STOP,
                message =
                  ''SIMULATION '' @ [CHR 0x27] @ name (options (new_Simulator T1_options)) @
                    [CHR 0x27] @ '' stopped.'',
                data = None\<rparr>,
          StopLogWriter, ProcessExit 0]"
    and zero:
      "exitStatus (run json_of_string [Call_stop, FlushSettled (Inr ())]
         (new_Simulator T1_options)) = Some 0"
    and one:
      "exitStatus (run json_of_string [Call_stop, FlushSettled (Inl ''boom'')]
         (new_Simulator T1_options)) = Some 1"
    by blast+
  from at_stopped live' exits have last:
    "0 < flushes (stop (new_Simulator T1_options)) \<and>
     trace (step json_of_string (FlushSettled (Inr ())) (stop (new_Simulator T1_options))) =
       trace (stop (new_Simulator T1_options)) @ [ProcessExit 0]"
    by auto
  from flushed have flushed':
    "trace (run json_of_string [Call_stop, FlushSettled (Inr ())] (new_Simulator T1_options)) =
       [Log \<lparr>event = SIMULATOR_STOP, message = ''SIMULATION 'T1' stopped.'', data = None\<rparr>,
        StopLogWriter, ProcessExit 0]"
    by (simp only: empty named) simp
  from live flushed' zero one live' exits last show ?thesis
    by blast
qed

section \<open>Describing the environment\<close>

lemma describeEnvironment_catch_eq:
  "describeEnvironment_catch error s =
     (Inr [], s\<lparr>trace := trace s @
        [ConsoleError ''Error describing the environment:'' error, Log (error_record error)]\<rparr>)"
  by (simp add: describeEnvironment_catch_def emit_def simulatorLogger_log_def Let_def)

lemma describeEnvironment_stringify_fails:
  "stringify (environment (options s)) = Inl error \<Longrightarrow>
     describeEnvironment stringify llm s =
       (Inr [], s\<lparr>trace := trace s @
          [ConsoleError ''Error describing the environment:'' error,
           Log (error_record error)]\<rparr>)"
  by (simp add: describeEnvironment_def describeEnvironment_begin_def
      describeEnvironment_catch_eq)

lemma describeEnvironment_llm_fails:
  "stringify (environment (options s)) = Inr json \<Longrightarrow>
   llm (describe_prompt json) = Inl error \<Longrightarrow>
     describeEnvironment stringify llm s =
       (Inr [], s\<lparr>trace := trace s @
          [Llm (describe_prompt json),
           ConsoleError ''Error describing the environment:'' error,
           Log (error_record error)]\<rparr>)"
  by (simp add: describeEnvironment_def describeEnvironment_begin_def
      describeEnvironment_continue_def describeEnvironment_catch_eq emit_def)

lemma describeEnvironment_llm_succeeds:
  "stringify (environment (options s)) = Inr json \<Longrightarrow>
   llm (describe_prompt json) = Inr nlDescription \<Longrightarrow>
     describeEnvironment stringify llm s =
       (Inr nlDescription, s\<lparr>trace := trace s @
          [Llm (describe_prompt json),
           Log (description_record (environment (options s)) nlDescription)]\<rparr>)"
  by (simp add: describeEnvironment_def describeEnvironment_begin_def
      describeEnvironment_continue_def emit_def simulatorLogger_log_def)

lemma describeEnvironment_cases:
  obtains (stringify_fails) error where "stringify (environment (options s)) = Inl error"
  | (llm_fails) json error where "stringify (environment (options s)) = Inr json"
      "llm (describe_prompt json) = Inl error"
  | (llm_succeeds) json nlDescription where "stringify (environment (options s)) = Inr json"
      "llm (describe_prompt json) = Inr nlDescription"
proof (cases "stringify (environment (options s))")
  case (Inl error)
  then show ?thesis by (rule stringify_fails)
next
  case (Inr json)
  then show ?thesis
    by (cases "llm (describe_prompt json)") (auto intro: llm_fails llm_succeeds)
qed

lemma describeEnvironment_frame:
  "(\<exists>r. fst (describeEnvironment stringify llm s) = Inr r) \<and>
   isRunning (snd (describeEnvironment stringify llm s)) = isRunning s \<and>
   isPaused (snd (describeEnvironment stringify llm s)) = isPaused s \<and>
   options (snd (describeEnvironment stringify llm s)) = options s"
  by (rule describeEnvironment_cases [where stringify = stringify and s = s and llm = llm])
    (simp_all add: describeEnvironment_stringify_fails describeEnvironment_llm_fails
      describeEnvironment_llm_succeeds)

text \<open>
  Claim C4. The promise of \<open>describeEnvironment()\<close> is never rejected, and the call
  leaves \<open>isRunning\<close> and \<open>isPaused\<close> as they were. When the text-completion service
  fails, the result is the empty string and exactly one record is logged, a \<open>SYSTEM_LOG\<close>
  record with the error; when it succeeds, the result is its output and exactly one
  record is logged, a \<open>SYSTEM_LOG\<close> record with the environment and the description. (When
  \<open>JSON.stringify\<close> throws, the service is not called and the outcome is that of a
  failure.)
\<close>

theorem describeEnvironment_never_throws:
  "(\<exists>r. fst (describeEnvironment stringify llm s) = Inr r) \<and>
   isRunning (snd (describeEnvironment stringify llm s)) = isRunning s \<and>
   isPaused (snd (describeEnvironment stringify llm s)) = isPaused s \<and>
   (\<forall>json error.
      stringify (environment (options s)) = Inr json \<and>
      llm (describe_prompt json) = Inl error \<longrightarrow>
        fst (describeEnvironment stringify llm s) = Inr [] \<and>
        records (trace (snd (describeEnvironment stringify llm s))) =
          records (trace s) @
            [\<lparr>event = SYSTEM_LOG, message = ''Error describing the environment.'',
              data = Some (ErrorDetail error)\<rparr>]) \<and>
   (\<forall>json nlDescription.
      stringify (environment (options s)) = Inr json \<and>
      llm (describe_prompt json) = Inr nlDescription \<longrightarrow>
        fst (describeEnvironment stringify llm s) = Inr nlDescription \<and>
        records (trace (snd (describeEnvironment stringify llm s))) =
          records (trace s) @
            [\<lparr>event = SYSTEM_LOG, message = ''Describing the environment.'',
              data = Some (EnvironmentDescription (environment (options s)) nlDescription)\<rparr>]) \<and>
   (\<forall>error.
      stringify (environment (options s)) = Inl error \<longrightarrow>
        fst (describeEnvironment stringify llm s) = Inr [] \<and>
        records (trace (snd (describeEnvironment stringify llm s))) =
          records (trace s) @
            [\<lparr>event = SYSTEM_LOG, message = ''Error describing the environment.'',
              data = Some (ErrorDetail error)\<rparr>])"
  using describeEnvironment_frame [where stringify = stringify and llm = llm and s = s]
  by (simp add: describeEnvironment_stringify_fails describeEnvironment_llm_fails
      describeEnvironment_llm_succeeds records_append error_record_def description_record_def)

text \<open>
  C4 at the new simulator for \<open>T1\<close>, with a service that fails, one that succeeds,
  and an environment that cannot be printed.
\<close>

theorem describeEnvironment_never_throws_witness:
  "describeEnvironment json_of_string (\<lambda>prompt. Inl ''timeout'') (new_Simulator T1_options) =
     (Inr [],
      snd (describeEnvironment json_of_string (\<lambda>prompt. Inl ''timeout'')
        (new_Simulator T1_options))) \<and>
   records (trace (snd (describeEnvironment json_of_string (\<lambda>prompt. Inl ''timeout'')
        (new_Simulator T1_options)))) =
     [\<lparr>event = SYSTEM_LOG, message = ''Error describing the environment.'',
       data = Some (ErrorDetail ''timeout'')\<rparr>] \<and>
   describeEnvironment json_of_string (\<lambda>prompt. Inr ''a grid'') (new_Simulator T1_options) =
     (Inr ''a grid'',
      snd (describeEnvironment json_of_string (\<lambda>prompt. Inr ''a grid'')
        (new_Simulator T1_options))) \<and>
   records (trace (snd (describeEnvironment json_of_string (\<lambda>prompt. Inr ''a grid'')
        (new_Simulator T1_options)))) =
     [\<lparr>event = SYSTEM_LOG, message = ''Describing the environment.'',
       data = Some (EnvironmentDescription ''grid'' ''a grid'')\<rparr>] \<and>
   records (trace (snd (describeEnvironment (\<lambda>v. Inl ''circular'') (\<lambda>prompt. Inr ''a grid'')
        (new_Simulator T1_options)))) =
     [\<lparr>event = SYSTEM_LOG, message = ''Error describing the environment.'',
       data = Some (ErrorDetail ''circular'')\<rparr>]"
proof -
  have env: "environment (options (new_Simulator T1_options)) = ''grid''"
    and empty: "trace (new_Simulator T1_options) = []"
    by (simp_all add: new_Simulator_def initOptionsWithDefaults_def T1_options_def)
  have json: "json_of_string ''grid'' = Inr ([CHR 0x22] @ ''grid'' @ [CHR 0x22])"
    by (simp add: json_of_string_def)
  show ?thesis
    using describeEnvironment_never_throws
        [where s = "new_Simulator T1_options" and stringify = json_of_string
           and llm = "\<lambda>prompt. Inl ''timeout''"]
      describeEnvironment_never_throws
        [where s = "new_Simulator T1_options" and stringify = json_of_string
           and llm = "\<lambda>prompt. Inr ''a grid''"]
      describeEnvironment_never_throws
        [where s = "new_Simulator T1_options" and stringify = "\<lambda>v. Inl ''circular''"
           and llm = "\<lambda>prompt. Inr ''a grid''"]
    by (simp add: env empty json prod_eq_iff)
qed

section \<open>Where \<open>isRunning\<close> changes\<close>

lemma isRunning_describeEnvironment_begin:
  "isRunning (snd (describeEnvironment_begin stringify s)) = isRunning s"
  by (simp add: describeEnvironment_begin_def describeEnvironment_catch_eq emit_def
      split: sum.splits)

lemma isRunning_describeEnvironment_continue:
  "isRunning (snd (describeEnvironment_continue completed s)) = isRunning s"
  by (simp add: describeEnvironment_continue_def describeEnvironment_catch_eq
      simulatorLogger_log_def emit_def split: sum.splits)

lemma isRunning_runIteration: "isRunning (runIteration s) = isRunning s"
  by (cases "isPaused s") (simp_all add: runIteration_paused runIteration_not_paused)

lemma isRunning_runSimulation: "isRunning (runSimulation s) = isRunning s"
  by (simp add: runSimulation_def isRunning_runIteration)

lemma isRunning_event_callback: "isRunning (event_callback generated s) = isRunning s"
  by (simp add: event_callback_def isRunning_runIteration emit_def)

lemma isRunning_stop_continue: "isRunning (snd (stop_continue flushed s)) = isRunning s"
  by (simp add: stop_continue_def process_exit_def emit_def split: sum.splits)

lemma isRunning_question_callback:
  "isRunning (question_callback answer s) =
     (if answer = ''q'' \<or> answer = ''Q'' then False else isRunning s)"
  by (simp add: question_callback_def stop_eq emit_def)

lemma isRunning_question_callbacks:
  "isRunning (question_callbacks n answer s) =
     (if 0 < n \<and> (answer = ''q'' \<or> answer = ''Q'') then False else isRunning s)"
  by (induction n arbitrary: s) (simp_all add: isRunning_question_callback)

lemma isRunning_flush_settled:
  "isRunning
     (case stop_continue flushed s of
        (Inl error, s') \<Rightarrow> unhandled_rejection error s'
      | (Inr u, s') \<Rightarrow> s') = isRunning s"
  by (simp add: stop_continue_def process_exit_def emit_def unhandled_rejection_def
      split: sum.splits)

lemma isRunning_step:
  "isRunning (step stringify i s) \<noteq> isRunning s \<Longrightarrow>
     (isRunning s \<longrightarrow> i = Call_stop \<or> i = Answer ''q'' \<or> i = Answer ''Q'') \<and>
     (\<not> isRunning s \<longrightarrow> i = Call_start)"
  by (cases i)
    (auto simp add: step_def start_eq stop_eq pause_eq resume_eq isRunning_runSimulation
      isRunning_runIteration isRunning_event_callback isRunning_flush_settled
      isRunning_question_callbacks isRunning_describeEnvironment_begin
      isRunning_describeEnvironment_continue unhandled_rejection_def split: if_splits)

lemma runIteration_gate: "(runIteration s = s) = isPaused s"
proof (cases "isPaused s")
  case True
  then show ?thesis by (simp add: runIteration_paused)
next
  case False
  then have "questions (runIteration s) = questions s + 1"
    by (simp add: runIteration_not_paused)
  then have "runIteration s \<noteq> s" by auto
  with False show ?thesis by simp
qed

text \<open>
  Claim C5 ends: no iteration begins once \<open>isRunning\<close> is false. \<open>runIteration\<close> looks at
  \<open>isPaused\<close> only. Counterexample: on a new simulator, which is not running and not
  paused, \<open>runIteration\<close> logs the iteration record and asks the question. And in the run
  that is started, then stopped from outside while the prompt is outstanding, then
  answered with \<open>x\<close>, the simulator is not running and the process has not exited (the
  flush has not settled); when the event arrives, a further iteration record is logged
  after the stop record and a new prompt is asked.
\<close>

theorem iteration_without_running_counterexample:
  "\<not> isRunning (new_Simulator T1_options) \<and>
   \<not> isPaused (new_Simulator T1_options) \<and>
   trace (runIteration (new_Simulator T1_options)) =
     [Log (iteration_record (new_Simulator T1_options)), CreateInterface,
      Question question_prompt] \<and>
   questions (runIteration (new_Simulator T1_options)) = 1 \<and>
   \<not> isRunning (run json_of_string [Call_start, Call_stop, Answer ''x'']
       (new_Simulator T1_options)) \<and>
   exitStatus (run json_of_string [Call_start, Call_stop, Answer ''x'']
       (new_Simulator T1_options)) = None \<and>
   map event (records (trace (run json_of_string [Call_start, Call_stop, Answer ''x'']
       (new_Simulator T1_options)))) = [SIMULATOR_START, SYSTEM_LOG, SIMULATOR_STOP] \<and>
   map event (records (trace (run json_of_string
       [Call_start, Call_stop, Answer ''x'', EventResolved ''e1'']
       (new_Simulator T1_options)))) =
     [SIMULATOR_START, SYSTEM_LOG, SIMULATOR_STOP, SYSTEM_LOG] \<and>
   questions (run json_of_string [Call_start, Call_stop, Answer ''x'', EventResolved ''e1'']
       (new_Simulator T1_options)) = 1"
  by (simp add: step_def start_eq stop_eq question_callback_def event_callback_def
      runIteration_def emit_def simulatorLogger_log_def new_Simulator_def record_defs Let_def)

text \<open>
  Claim C5 as amended. In any step of any run, \<open>isRunning\<close> goes from false to true
  only in a call of \<open>start\<close>, and from true to false only in \<open>stop\<close>, called from outside
  or by the prompt callback on \<open>q\<close>/\<open>Q\<close>. \<open>pause\<close>, \<open>resume\<close>, \<open>runSimulation\<close>,
  \<open>runIteration\<close>, the event callback and \<open>describeEnvironment\<close> leave it as it is. And
  \<open>runSimulation\<close> begins no iteration, and does nothing else, when \<open>isRunning\<close> is false.
\<close>

theorem isRunning_changes_only_in_start_and_stop:
  "(\<not> isRunning s \<and> isRunning (step stringify i s) \<longrightarrow> i = Call_start) \<and>
   (isRunning s \<and> \<not> isRunning (step stringify i s) \<longrightarrow>
      i = Call_stop \<or> i = Answer ''q'' \<or> i = Answer ''Q'') \<and>
   isRunning (start s) \<and>
   \<not> isRunning (stop s) \<and>
   isRunning (pause s) = isRunning s \<and>
   isRunning (resume s) = isRunning s \<and>
   isRunning (runSimulation s) = isRunning s \<and>
   isRunning (runIteration s) = isRunning s \<and>
   isRunning (event_callback generated s) = isRunning s \<and>
   isRunning (snd (describeEnvironment stringify llm s)) = isRunning s \<and>
   isRunning (question_callback answer s) =
     (if answer = ''q'' \<or> answer = ''Q'' then isRunning (stop s) else isRunning s) \<and>
   (\<not> isRunning s \<longrightarrow> runSimulation s = s)"
proof -
  have a: "\<not> isRunning s \<and> isRunning (step stringify i s) \<longrightarrow> i = Call_start"
    using isRunning_step [of stringify i s] by blast
  have b: "isRunning s \<and> \<not> isRunning (step stringify i s) \<longrightarrow>
      i = Call_stop \<or> i = Answer ''q'' \<or> i = Answer ''Q''"
    using isRunning_step [of stringify i s] by blast
  have c: "isRunning (start s) \<and> \<not> isRunning (stop s) \<and>
     isRunning (pause s) = isRunning s \<and> isRunning (resume s) = isRunning s"
    by (simp add: start_eq stop_eq pause_eq resume_eq)
  have d: "isRunning (snd (describeEnvironment stringify llm s)) = isRunning s"
    using describeEnvironment_frame [where stringify = stringify and llm = llm and s = s]
    by simp
  have e: "isRunning (question_callback answer s) =
     (if answer = ''q'' \<or> answer = ''Q'' then isRunning (stop s) else isRunning s)"
    by (simp add: isRunning_question_callback stop_eq)
  have f: "\<not> isRunning s \<longrightarrow> runSimulation s = s"
    by (simp add: runSimulation_def getRunningState_def)
  from a b c d e f show ?thesis
    by (simp add: isRunning_runSimulation isRunning_runIteration isRunning_event_callback)
qed

text \<open>
  The amended C5 at the simulator for \<open>T1\<close>: new, it is not running, \<open>start\<close> makes it
  run and \<open>runSimulation\<close> does nothing; started, the answer \<open>q\<close> ends the running.
\<close>

theorem isRunning_changes_only_in_start_and_stop_witness:
  "\<not> isRunning (new_Simulator T1_options) \<and>
   isRunning (step json_of_string Call_start (new_Simulator T1_options)) \<and>
   isRunning (start (new_Simulator T1_options)) \<and>
   \<not> isRunning (step json_of_string (Answer ''q'') (start (new_Simulator T1_options))) \<and>
   runSimulation (new_Simulator T1_options) = new_Simulator T1_options"
proof -
  have fresh: "\<not> isRunning (new_Simulator T1_options)"
    "exitStatus (new_Simulator T1_options) = None"
    by (simp_all add: new_Simulator_def)
  have started: "isRunning (step json_of_string Call_start (new_Simulator T1_options))"
    by (simp add: step_def fresh start_eq)
  have quit:
    "\<not> isRunning (step json_of_string (Answer ''q'') (start (new_Simulator T1_options)))"
    by (simp add: step_def start_eq new_Simulator_def isRunning_question_callback)
  show ?thesis
    using isRunning_changes_only_in_start_and_stop
        [where s = "new_Simulator T1_options" and stringify = json_of_string
           and i = Call_start]
      isRunning_changes_only_in_start_and_stop
        [where s = "start (new_Simulator T1_options)" and stringify = json_of_string
           and i = "Answer ''q''"]
      fresh started quit
    by simp
qed

section \<open>An iteration while paused\<close>

text \<open>
  Claim C6. When \<open>isPaused\<close> is true, \<open>runIteration()\<close> returns the simulator as it
  found it: no record is logged, no event is asked for, no prompt is added, no field
  changes. The event callback, which ends in \<open>runIteration\<close>, then only prints the event.
\<close>

theorem runIteration_paused_is_noop:
  "isPaused s \<Longrightarrow>
     runIteration s = s \<and>
     records (trace (runIteration s)) = records (trace s) \<and>
     fetch_count (trace (runIteration s)) = fetch_count (trace s) \<and>
     fetches (runIteration s) = fetches s \<and>
     questions (runIteration s) = questions s \<and>
     event_callback generated s = emit (ConsoleLog ''Generated event:'' generated) s"
  by (simp add: runIteration_paused event_callback_def emit_def)

text \<open>C6 at the paused simulator for \<open>T1\<close>.\<close>

theorem runIteration_paused_is_noop_witness:
  "isPaused (pause (new_Simulator T1_options)) \<and>
   runIteration (pause (new_Simulator T1_options)) = pause (new_Simulator T1_options)"
proof -
  have p: "isPaused (pause (new_Simulator T1_options))"
    by (simp add: pause_eq)
  show ?thesis
    using runIteration_paused_is_noop [OF p] p by simp
qed

section \<open>The operator's answers\<close>

lemma question_callback_quit:
  "answer = ''q'' \<or> answer = ''Q'' \<Longrightarrow>
     question_callback answer s =
       s\<lparr>isRunning := False,
         trace := trace s @ [Log (stop_record s), StopLogWriter, RlClose],
         flushes := flushes s + 1\<rparr>"
  by (auto simp add: question_callback_def stop_eq emit_def)

lemma question_callback_continue:
  "answer = ''x'' \<or> answer = ''X'' \<Longrightarrow>
     question_callback answer s =
       s\<lparr>trace := trace s @ [GetNextEnvironmentEvent, RlClose], fetches := fetches s + 1\<rparr>"
  by (auto simp add: question_callback_def emit_def)

lemma question_callback_other:
  "answer \<notin> {''q'', ''Q'', ''x'', ''X''} \<Longrightarrow>
     question_callback answer s = s\<lparr>trace := trace s @ [RlClose]\<rparr>"
  by (simp add: question_callback_def emit_def)

lemma question_callback_cases:
  obtains (quit) "answer = ''q'' \<or> answer = ''Q''"
  | (continue) "answer = ''x'' \<or> answer = ''X''"
  | (other) "answer \<notin> {''q'', ''Q'', ''x'', ''X''}"
  by auto

lemma quit_run:
  "run stringify [Call_start, Answer ''q''] (new_Simulator opts) =
     (new_Simulator opts)
       \<lparr>trace :=
          [Log (start_record (new_Simulator opts)), Log (iteration_record (new_Simulator opts)),
           CreateInterface, Question question_prompt,
           Log (stop_record (new_Simulator opts)), StopLogWriter, RlClose],
        flushes := 1\<rparr>"
  by (simp add: step_def start_eq question_callback_quit new_Simulator_def record_defs)

lemma step_Answer_one:
  "exitStatus s = None \<Longrightarrow> questions s = 1 \<Longrightarrow>
     step stringify (Answer answer) s = question_callback answer (s\<lparr>questions := 0\<rparr>)"
  by (simp add: step_def)

lemma quit_step:
  assumes "exitStatus s = None" "questions s = 1" "answer = ''q'' \<or> answer = ''Q''"
  shows "step stringify (Answer answer) s =
     s\<lparr>isRunning := False,
       trace := trace s @ [Log (stop_record s), StopLogWriter, RlClose],
       questions := 0,
       flushes := flushes s + 1\<rparr>"
  using assms
  by (simp only: step_Answer_one question_callback_quit) (simp add: record_defs)

lemma other_step:
  assumes "exitStatus s = None" "questions s = 1" "answer \<notin> {''q'', ''Q'', ''x'', ''X''}"
  shows "step stringify (Answer answer) s = s\<lparr>trace := trace s @ [RlClose], questions := 0\<rparr>"
  using assms
  by (simp add: step_Answer_one question_callback_def emit_def)

lemma continue_step:
  assumes "exitStatus s = None" "questions s = 1" "answer = ''x'' \<or> answer = ''X''"
  shows "step stringify (Answer answer) s =
     s\<lparr>trace := trace s @ [GetNextEnvironmentEvent, RlClose],
       questions := 0,
       fetches := fetches s + 1\<rparr>"
  using assms
  by (simp only: step_Answer_one question_callback_continue) simp

lemma continue_run:
  assumes "exitStatus s = None" "questions s = 1" "\<not> isPaused s"
    "answer = ''x'' \<or> answer = ''X''"
  shows "run stringify [Answer answer, EventResolved generated] s =
     s\<lparr>trace := trace s @
         [GetNextEnvironmentEvent, RlClose, ConsoleLog ''Generated event:'' generated,
          Log (iteration_record s), CreateInterface, Question question_prompt]\<rparr>"
proof -
  have "run stringify [Answer answer, EventResolved generated] s =
      step stringify (EventResolved generated) (step stringify (Answer answer) s)"
    by simp
  also have "\<dots> =
      s\<lparr>trace := trace s @
          [GetNextEnvironmentEvent, RlClose, ConsoleLog ''Generated event:'' generated,
           Log (iteration_record s), CreateInterface, Question question_prompt]\<rparr>"
    using assms
    by (simp only: continue_step)
      (simp add: step_def event_callback_def emit_def runIteration_not_paused record_defs)
  finally show ?thesis .
qed

lemma start_continue_run:
  "run stringify [Call_start, Answer ''x'', EventResolved generated] (new_Simulator opts) =
     (new_Simulator opts)
       \<lparr>isRunning := True,
        trace :=
          [Log (start_record (new_Simulator opts)), Log (iteration_record (new_Simulator opts)),
           CreateInterface, Question question_prompt,
           GetNextEnvironmentEvent, RlClose, ConsoleLog ''Generated event:'' generated,
           Log (iteration_record (new_Simulator opts)), CreateInterface,
           Question question_prompt],
        questions := 1\<rparr>"
proof -
  have started: "exitStatus (start (new_Simulator opts)) = None"
    "questions (start (new_Simulator opts)) = 1" "\<not> isPaused (start (new_Simulator opts))"
    by (simp_all add: start_eq new_Simulator_def)
  have "run stringify [Call_start, Answer ''x'', EventResolved generated] (new_Simulator opts) =
      run stringify [Answer ''x'', EventResolved generated] (start (new_Simulator opts))"
    by (simp add: step_def new_Simulator_def)
  also have "\<dots> =
      (start (new_Simulator opts))
        \<lparr>trace := trace (start (new_Simulator opts)) @
           [GetNextEnvironmentEvent, RlClose, ConsoleLog ''Generated event:'' generated,
            Log (iteration_record (start (new_Simulator opts))), CreateInterface,
            Question question_prompt]\<rparr>"
    using started by (intro continue_run) simp_all
  finally show ?thesis
    by (simp add: start_eq new_Simulator_def record_defs)
qed

text \<open>
  Claim C7. The prompt callback calls \<open>stop()\<close> exactly on the answers \<open>q\<close> and \<open>Q\<close>,
  and asks the sandbox for one event exactly on the answers \<open>x\<close> and \<open>X\<close>; on any other
  answer it only closes the interface. It never asks a new question itself: after \<open>q\<close>
  nothing but the flush is outstanding, after \<open>x\<close> the next iteration begins when the
  event is delivered (if the simulator is not paused then). So in a run with one prompt
  outstanding: the answer \<open>q\<close> or \<open>Q\<close> logs the \<open>SIMULATOR_STOP\<close> record, calls
  \<open>stopLogWriter\<close>, and leaves no prompt and no further event outstanding; any answer
  other than the four closes the interface and leaves nothing outstanding; the answer
  \<open>x\<close> or \<open>X\<close> asks for one event, and the delivery of that event logs the next iteration
  and asks the next question. For the run whose first answer is \<open>q\<close>, whatever the
  configuration, the records are start, iteration, stop, and no event is asked for; once
  the flush completes the process has exited with status 0. For the run whose first
  answer is \<open>x\<close>, the records are start, iteration, iteration, with one event asked for
  and the second prompt outstanding.
\<close>

theorem operator_responses:
  "(trace (question_callback answer s) =
      trace s @ [Log (stop_record s), StopLogWriter, RlClose]) =
     (answer = ''q'' \<or> answer = ''Q'') \<and>
   (trace (question_callback answer s) = trace s @ [GetNextEnvironmentEvent, RlClose]) =
     (answer = ''x'' \<or> answer = ''X'') \<and>
   (trace (question_callback answer s) = trace s @ [RlClose]) =
     (answer \<notin> {''q'', ''Q'', ''x'', ''X''}) \<and>
   (answer = ''q'' \<or> answer = ''Q'' \<longrightarrow> question_callback answer s = emit RlClose (stop s)) \<and>
   fetch_count (trace (question_callback answer s)) =
     fetch_count (trace s) + (if answer = ''x'' \<or> answer = ''X'' then 1 else 0) \<and>
   fetches (question_callback answer s) =
     fetches s + (if answer = ''x'' \<or> answer = ''X'' then 1 else 0) \<and>
   flushes (question_callback answer s) =
     flushes s + (if answer = ''q'' \<or> answer = ''Q'' then 1 else 0) \<and>
   questions (question_callback answer s) = questions s \<and>
   (\<not> isPaused s \<longrightarrow>
      trace (event_callback generated s) =
        trace s @ [ConsoleLog ''Generated event:'' generated, Log (iteration_record s),
                   CreateInterface, Question question_prompt] \<and>
      questions (event_callback generated s) = questions s + 1) \<and>
   records (trace (run stringify [Call_start, Answer ''q''] (new_Simulator opts))) =
     [start_record (new_Simulator opts), iteration_record (new_Simulator opts),
      stop_record (new_Simulator opts)] \<and>
   fetch_count (trace (run stringify [Call_start, Answer ''q''] (new_Simulator opts))) = 0 \<and>
   fetches (run stringify [Call_start, Answer ''q''] (new_Simulator opts)) = 0 \<and>
   questions (run stringify [Call_start, Answer ''q''] (new_Simulator opts)) = 0 \<and>
   records (trace (run stringify [Call_start, Answer ''q'', FlushSettled (Inr ())]
       (new_Simulator opts))) =
     [start_record (new_Simulator opts), iteration_record (new_Simulator opts),
      stop_record (new_Simulator opts)] \<and>
   fetch_count (trace (run stringify [Call_start, Answer ''q'', FlushSettled (Inr ())]
       (new_Simulator opts))) = 0 \<and>
   exitStatus (run stringify [Call_start, Answer ''q'', FlushSettled (Inr ())]
       (new_Simulator opts)) = Some 0 \<and>
   (exitStatus s = None \<and> questions s = 1 \<and> (answer = ''q'' \<or> answer = ''Q'') \<longrightarrow>
      trace (step stringify (Answer answer) s) =
        trace s @
          [Log \<lparr>event = SIMULATOR_STOP,
                 message =
                   ''SIMULATION '' @ [CHR 0x27] @ name (options s) @ [CHR 0x27] @ '' stopped.'',
                 data = None\<rparr>,
           StopLogWriter, RlClose] \<and>
      isRunning (step stringify (Answer answer) s) = False \<and>
      questions (step stringify (Answer answer) s) = 0 \<and>
      fetches (step stringify (Answer answer) s) = fetches s \<and>
      flushes (step stringify (Answer answer) s) = flushes s + 1) \<and>
   (exitStatus s = None \<and> questions s = 1 \<and> answer \<notin> {''q'', ''Q'', ''x'', ''X''} \<longrightarrow>
      trace (step stringify (Answer answer) s) = trace s @ [RlClose] \<and>
      isRunning (step stringify (Answer answer) s) = isRunning s \<and>
      questions (step stringify (Answer answer) s) = 0 \<and>
      fetches (step stringify (Answer answer) s) = fetches s \<and>
      flushes (step stringify (Answer answer) s) = flushes s) \<and>
   (exitStatus s = None \<and> questions s = 1 \<and> \<not> isPaused s \<and>
    (answer = ''x'' \<or> answer = ''X'') \<longrightarrow>
      trace (step stringify (Answer answer) s) =
        trace s @ [GetNextEnvironmentEvent, RlClose] \<and>
      questions (step stringify (Answer answer) s) = 0 \<and>
      fetches (step stringify (Answer answer) s) = fetches s + 1 \<and>
      trace (run stringify [Answer answer, EventResolved generated] s) =
        trace s @
          [GetNextEnvironmentEvent, RlClose, ConsoleLog ''Generated event:'' generated,
           Log \<lparr>event = SYSTEM_LOG,
                 message =
                   ''Running iteration for SIMULATION '' @ [CHR 0x27] @ name (options s) @
                     [CHR 0x27] @ ''.'',
                 data = None\<rparr>,
           CreateInterface, Question question_prompt] \<and>
      questions (run stringify [Answer answer, EventResolved generated] s) = 1 \<and>
      fetches (run stringify [Answer answer, EventResolved generated] s) = fetches s \<and>
      isRunning (run stringify [Answer answer, EventResolved generated] s) = isRunning s \<and>
      fetch_count (trace (run stringify [Answer answer, EventResolved generated] s)) =
        fetch_count (trace s) + 1) \<and>
   map event (records (trace (run stringify [Call_start, Answer ''q''] (new_Simulator opts)))) =
     [SIMULATOR_START, SYSTEM_LOG, SIMULATOR_STOP] \<and>
   map event (records (trace (run stringify
       [Call_start, Answer ''x'', EventResolved generated] (new_Simulator opts)))) =
     [SIMULATOR_START, SYSTEM_LOG, SYSTEM_LOG] \<and>
   fetch_count (trace (run stringify
       [Call_start, Answer ''x'', EventResolved generated] (new_Simulator opts))) = 1 \<and>
   questions (run stringify
       [Call_start, Answer ''x'', EventResolved generated] (new_Simulator opts)) = 1"
proof -
  have callback:
    "(trace (question_callback answer s) =
        trace s @ [Log (stop_record s), StopLogWriter, RlClose]) =
       (answer = ''q'' \<or> answer = ''Q'') \<and>
     (trace (question_callback answer s) = trace s @ [GetNextEnvironmentEvent, RlClose]) =
       (answer = ''x'' \<or> answer = ''X'') \<and>
     (trace (question_callback answer s) = trace s @ [RlClose]) =
       (answer \<notin> {''q'', ''Q'', ''x'', ''X''}) \<and>
     fetch_count (trace (question_callback answer s)) =
       fetch_count (trace s) + (if answer = ''x'' \<or> answer = ''X'' then 1 else 0) \<and>
     fetches (question_callback answer s) =
       fetches s + (if answer = ''x'' \<or> answer = ''X'' then 1 else 0) \<and>
     flushes (question_callback answer s) =
       flushes s + (if answer = ''q'' \<or> answer = ''Q'' then 1 else 0) \<and>
     questions (question_callback answer s) = questions s"
  proof (cases answer rule: question_callback_cases)
    case quit
    then show ?thesis
      by (auto simp add: question_callback_quit fetch_count_def)
  next
    case continue
    then show ?thesis
      by (auto simp add: question_callback_continue fetch_count_def)
  next
    case other
    then show ?thesis
      by (simp add: question_callback_other fetch_count_def)
  qed
  have stops: "answer = ''q'' \<or> answer = ''Q'' \<longrightarrow>
      question_callback answer s = emit RlClose (stop s)"
    by (simp add: question_callback_def)
  have next_iteration: "\<not> isPaused s \<longrightarrow>
      trace (event_callback generated s) =
        trace s @ [ConsoleLog ''Generated event:'' generated, Log (iteration_record s),
                   CreateInterface, Question question_prompt] \<and>
      questions (event_callback generated s) = questions s + 1"
    by (simp add: event_callback_def emit_def runIteration_not_paused record_defs)
  have scenario:
    "records (trace (run stringify [Call_start, Answer ''q''] (new_Simulator opts))) =
       [start_record (new_Simulator opts), iteration_record (new_Simulator opts),
        stop_record (new_Simulator opts)] \<and>
     fetch_count (trace (run stringify [Call_start, Answer ''q''] (new_Simulator opts))) = 0 \<and>
     fetches (run stringify [Call_start, Answer ''q''] (new_Simulator opts)) = 0 \<and>
     questions (run stringify [Call_start, Answer ''q''] (new_Simulator opts)) = 0"
    by (simp only: quit_run) (simp add: fetch_count_def new_Simulator_def)
  have "run stringify [Call_start, Answer ''q'', FlushSettled (Inr ())] (new_Simulator opts) =
      step stringify (FlushSettled (Inr ()))
        (run stringify [Call_start, Answer ''q''] (new_Simulator opts))"
    by simp
  then have exits:
    "records (trace (run stringify [Call_start, Answer ''q'', FlushSettled (Inr ())]
         (new_Simulator opts))) =
       [start_record (new_Simulator opts), iteration_record (new_Simulator opts),
        stop_record (new_Simulator opts)] \<and>
     fetch_count (trace (run stringify [Call_start, Answer ''q'', FlushSettled (Inr ())]
         (new_Simulator opts))) = 0 \<and>
     exitStatus (run stringify [Call_start, Answer ''q'', FlushSettled (Inr ())]
         (new_Simulator opts)) = Some 0"
    by (simp only: quit_run)
      (simp add: step_def stop_continue_def process_exit_def emit_def fetch_count_def
        new_Simulator_def)
  have quits:
  "(exitStatus s = None \<and> questions s = 1 \<and> (answer = ''q'' \<or> answer = ''Q'') \<longrightarrow>
      trace (step stringify (Answer answer) s) =
        trace s @
          [Log \<lparr>event = SIMULATOR_STOP,
                 message =
                   ''SIMULATION '' @ [CHR 0x27] @ name (options s) @ [CHR 0x27] @ '' stopped.'',
                 data = None\<rparr>,
           StopLogWriter, RlClose] \<and>
      isRunning (step stringify (Answer answer) s) = False \<and>
      questions (step stringify (Answer answer) s) = 0 \<and>
      fetches (step stringify (Answer answer) s) = fetches s \<and>
      flushes (step stringify (Answer answer) s) = flushes s + 1)"
    by (simp add: quit_step record_defs)
  have others:
  "(exitStatus s = None \<and> questions s = 1 \<and> answer \<notin> {''q'', ''Q'', ''x'', ''X''} \<longrightarrow>
      trace (step stringify (Answer answer) s) = trace s @ [RlClose] \<and>
      isRunning (step stringify (Answer answer) s) = isRunning s \<and>
      questions (step stringify (Answer answer) s) = 0 \<and>
      fetches (step stringify (Answer answer) s) = fetches s \<and>
      flushes (step stringify (Answer answer) s) = flushes s)"
    by (simp add: other_step)
  have continues:
  "(exitStatus s = None \<and> questions s = 1 \<and> \<not> isPaused s \<and>
    (answer = ''x'' \<or> answer = ''X'') \<longrightarrow>
      trace (step stringify (Answer answer) s) =
        trace s @ [GetNextEnvironmentEvent, RlClose] \<and>
      questions (step stringify (Answer answer) s) = 0 \<and>
      fetches (step stringify (Answer answer) s) = fetches s + 1 \<and>
      trace (run stringify [Answer answer, EventResolved generated] s) =
        trace s @
          [GetNextEnvironmentEvent, RlClose, ConsoleLog ''Generated event:'' generated,
           Log \<lparr>event = SYSTEM_LOG,
                 message =
                   ''Running iteration for SIMULATION '' @ [CHR 0x27] @ name (options s) @
                     [CHR 0x27] @ ''.'',
                 data = None\<rparr>,
           CreateInterface, Question question_prompt] \<and>
      questions (run stringify [Answer answer, EventResolved generated] s) = 1 \<and>
      fetches (run stringify [Answer answer, EventResolved generated] s) = fetches s \<and>
      isRunning (run stringify [Answer answer, EventResolved generated] s) = isRunning s \<and>
      fetch_count (trace (run stringify [Answer answer, EventResolved generated] s)) =
        fetch_count (trace s) + 1)"
    (is "?P \<longrightarrow> ?Q")
  proof (intro impI, elim conjE)
    assume h: "exitStatus s = None" "questions s = 1" "\<not> isPaused s"
      "answer = ''x'' \<or> answer = ''X''"
    note one = continue_step [OF h(1) h(2) h(4), of stringify]
    note two = continue_run [OF h, of stringify generated]
    show ?Q
      unfolding one two using h(2) by (simp add: fetch_count_def record_defs)
  qed
  have kinds:
  "map event (records (trace (run stringify [Call_start, Answer ''q''] (new_Simulator opts)))) =
     [SIMULATOR_START, SYSTEM_LOG, SIMULATOR_STOP] \<and>
   map event (records (trace (run stringify
       [Call_start, Answer ''x'', EventResolved generated] (new_Simulator opts)))) =
     [SIMULATOR_START, SYSTEM_LOG, SYSTEM_LOG] \<and>
   fetch_count (trace (run stringify
       [Call_start, Answer ''x'', EventResolved generated] (new_Simulator opts))) = 1 \<and>
   questions (run stringify
       [Call_start, Answer ''x'', EventResolved generated] (new_Simulator opts)) = 1"
    by (simp only: quit_run start_continue_run)
      (simp add: fetch_count_def new_Simulator_def record_defs)
  from callback stops next_iteration scenario exits quits others continues kinds
  show ?thesis
    by (elim conjE, intro conjI) assumption+
qed

text \<open>C7 at the started simulator for \<open>T1\<close>, for the answers \<open>q\<close>, \<open>x\<close> and \<open>y\<close>.\<close>

theorem operator_responses_witness:
  "question_callback ''q'' (start (new_Simulator T1_options)) =
     emit RlClose (stop (start (new_Simulator T1_options))) \<and>
   \<not> isPaused (start (new_Simulator T1_options)) \<and>
   questions (event_callback ''e1'' (start (new_Simulator T1_options))) = 2 \<and>
   trace (question_callback ''x'' (start (new_Simulator T1_options))) =
     trace (start (new_Simulator T1_options)) @ [GetNextEnvironmentEvent, RlClose] \<and>
   trace (question_callback ''y'' (start (new_Simulator T1_options))) =
     trace (start (new_Simulator T1_options)) @ [RlClose] \<and>
   exitStatus (start (new_Simulator T1_options)) = None \<and>
   questions (start (new_Simulator T1_options)) = 1 \<and>
   trace (step json_of_string (Answer ''q'') (start (new_Simulator T1_options))) =
     trace (start (new_Simulator T1_options)) @
       [Log \<lparr>event = SIMULATOR_STOP, message = ''SIMULATION 'T1' stopped.'', data = None\<rparr>,
        StopLogWriter, RlClose] \<and>
   trace (step json_of_string (Answer ''y'') (start (new_Simulator T1_options))) =
     trace (start (new_Simulator T1_options)) @ [RlClose] \<and>
   questions (step json_of_string (Answer ''y'') (start (new_Simulator T1_options))) = 0 \<and>
   trace (run json_of_string [Answer ''x'', EventResolved ''e1'']
       (start (new_Simulator T1_options))) =
     trace (start (new_Simulator T1_options)) @
       [GetNextEnvironmentEvent, RlClose, ConsoleLog ''Generated event:'' ''e1'',
        Log \<lparr>event = SYSTEM_LOG, message = ''Running iteration for SIMULATION 'T1'.'',
             data = None\<rparr>,
        CreateInterface, Question question_prompt] \<and>
   questions (run json_of_string [Answer ''x'', EventResolved ''e1'']
       (start (new_Simulator T1_options))) = 1"
proof -
  have p: "\<not> isPaused (start (new_Simulator T1_options))"
    and q: "questions (start (new_Simulator T1_options)) = 1"
    and live: "exitStatus (start (new_Simulator T1_options)) = None"
    and named: "name (options (start (new_Simulator T1_options))) = ''T1''"
    by (simp_all add: start_eq new_Simulator_def initOptionsWithDefaults_def T1_options_def)
  note at_q =
    operator_responses
      [where s = "start (new_Simulator T1_options)" and answer = "''q''"
         and generated = "''e1''" and stringify = json_of_string and opts = T1_options]
  note at_x =
    operator_responses
      [where s = "start (new_Simulator T1_options)" and answer = "''x''"
         and generated = "''e1''" and stringify = json_of_string and opts = T1_options]
  note at_y =
    operator_responses
      [where s = "start (new_Simulator T1_options)" and answer = "''y''"
         and generated = "''e1''" and stringify = json_of_string and opts = T1_options]
  from at_q have a: "question_callback ''q'' (start (new_Simulator T1_options)) =
      emit RlClose (stop (start (new_Simulator T1_options)))"
    by simp
  from at_q p q have b:
    "questions (event_callback ''e1'' (start (new_Simulator T1_options))) = 2"
    by simp
  from at_x have c: "trace (question_callback ''x'' (start (new_Simulator T1_options))) =
      trace (start (new_Simulator T1_options)) @ [GetNextEnvironmentEvent, RlClose]"
    by simp
  from at_y have d: "trace (question_callback ''y'' (start (new_Simulator T1_options))) =
      trace (start (new_Simulator T1_options)) @ [RlClose]"
    by simp
  from at_q live q have e:
    "trace (step json_of_string (Answer ''q'') (start (new_Simulator T1_options))) =
       trace (start (new_Simulator T1_options)) @
         [Log \<lparr>event = SIMULATOR_STOP,
                message =
                  ''SIMULATION '' @ [CHR 0x27] @
                    name (options (start (new_Simulator T1_options))) @ [CHR 0x27] @
                    '' stopped.'',
                data = None\<rparr>,
          StopLogWriter, RlClose]"
    by (elim conjE) simp
  from at_y live q have f:
    "trace (step json_of_string (Answer ''y'') (start (new_Simulator T1_options))) =
       trace (start (new_Simulator T1_options)) @ [RlClose] \<and>
     questions (step json_of_string (Answer ''y'') (start (new_Simulator T1_options))) = 0"
    by (elim conjE) simp
  from at_x live q p have g:
    "trace (run json_of_string [Answer ''x'', EventResolved ''e1'']
         (start (new_Simulator T1_options))) =
       trace (start (new_Simulator T1_options)) @
         [GetNextEnvironmentEvent, RlClose, ConsoleLog ''Generated event:'' ''e1'',
          Log \<lparr>event = SYSTEM_LOG,
                message =
                  ''Running iteration for SIMULATION '' @ [CHR 0x27] @
                    name (options (start (new_Simulator T1_options))) @ [CHR 0x27] @ ''.'',
                data = None\<rparr>,
          CreateInterface, Question question_prompt] \<and>
     questions (run json_of_string [Answer ''x'', EventResolved ''e1'']
         (start (new_Simulator T1_options))) = 1"
    by (elim conjE) (simp del: run.simps)
  from e have e':
    "trace (step json_of_string (Answer ''q'') (start (new_Simulator T1_options))) =
       trace (start (new_Simulator T1_options)) @
         [Log \<lparr>event = SIMULATOR_STOP, message = ''SIMULATION 'T1' stopped.'', data = None\<rparr>,
          StopLogWriter, RlClose]"
    by (simp only: named) simp
  from g have g':
    "trace (run json_of_string [Answer ''x'', EventResolved ''e1'']
         (start (new_Simulator T1_options))) =
       trace (start (new_Simulator T1_options)) @
         [GetNextEnvironmentEvent, RlClose, ConsoleLog ''Generated event:'' ''e1'',
          Log \<lparr>event = SYSTEM_LOG, message = ''Running iteration for SIMULATION 'T1'.'',
               data = None\<rparr>,
          CreateInterface, Question question_prompt] \<and>
     questions (run json_of_string [Answer ''x'', EventResolved ''e1'']
         (start (new_Simulator T1_options))) = 1"
    by (simp only: named) (simp del: run.simps)
  from a p b c d live q e' f g' show ?thesis
    by (elim conjE, intro conjI) assumption+
qed

section \<open>The \<open>iterations\<close> field\<close>

lemma with_iterations_simps:
  "isRunning (with_iterations k s) = isRunning s"
  "isPaused (with_iterations k s) = isPaused s"
  "trace (with_iterations k s) = trace s"
  "questions (with_iterations k s) = questions s"
  "fetches (with_iterations k s) = fetches s"
  "flushes (with_iterations k s) = flushes s"
  "completions (with_iterations k s) = completions s"
  "exitStatus (with_iterations k s) = exitStatus s"
  "name (options (with_iterations k s)) = name (options s)"
  "environment (options (with_iterations k s)) = environment (options s)"
  by (simp_all add: with_iterations_def)

lemma record_with_iterations:
  "start_record (with_iterations k s) = start_record s"
  "stop_record (with_iterations k s) = stop_record s"
  "pause_record (with_iterations k s) = pause_record s"
  "resume_record (with_iterations k s) = resume_record s"
  "iteration_record (with_iterations k s) = iteration_record s"
  by (simp_all add: record_defs with_iterations_def)

lemma runIteration_with_iterations:
  "runIteration (with_iterations k s) = with_iterations k (runIteration s)"
  by (cases "isPaused s")
    (simp_all add: runIteration_paused runIteration_not_paused with_iterations_simps
      record_with_iterations, simp add: with_iterations_def)

lemma start_with_iterations: "start (with_iterations k s) = with_iterations k (start s)"
  by (simp add: start_eq with_iterations_def record_defs)

lemma stop_with_iterations: "stop (with_iterations k s) = with_iterations k (stop s)"
  by (simp add: stop_eq with_iterations_def record_defs)

lemma pause_with_iterations: "pause (with_iterations k s) = with_iterations k (pause s)"
  by (simp add: pause_eq with_iterations_def record_defs)

lemma resume_with_iterations: "resume (with_iterations k s) = with_iterations k (resume s)"
  by (simp add: resume_eq with_iterations_def record_defs)

lemma runSimulation_with_iterations:
  "runSimulation (with_iterations k s) = with_iterations k (runSimulation s)"
  by (simp add: runSimulation_def getRunningState_def runIteration_with_iterations
      with_iterations_simps)

lemma question_callback_with_iterations:
  "question_callback answer (with_iterations k s) =
     with_iterations k (question_callback answer s)"
  by (simp add: question_callback_def stop_eq emit_def with_iterations_def record_defs)

lemma event_callback_with_iterations:
  "event_callback generated (with_iterations k s) =
     with_iterations k (event_callback generated s)"
proof -
  have "emit (ConsoleLog ''Generated event:'' generated) (with_iterations k s) =
      with_iterations k (emit (ConsoleLog ''Generated event:'' generated) s)"
    by (simp add: emit_def with_iterations_def)
  then show ?thesis
    by (simp add: event_callback_def runIteration_with_iterations)
qed

lemma stop_continue_with_iterations:
  "snd (stop_continue flushed (with_iterations k s)) =
     with_iterations k (snd (stop_continue flushed s))"
  by (simp add: stop_continue_def process_exit_def emit_def with_iterations_def
      split: sum.splits)

lemma describeEnvironment_begin_with_iterations:
  "snd (describeEnvironment_begin stringify (with_iterations k s)) =
     with_iterations k (snd (describeEnvironment_begin stringify s))"
  by (simp add: describeEnvironment_begin_def describeEnvironment_catch_eq emit_def
      with_iterations_def split: sum.splits)

lemma describeEnvironment_continue_with_iterations:
  "snd (describeEnvironment_continue completed (with_iterations k s)) =
     with_iterations k (snd (describeEnvironment_continue completed s))"
  by (simp add: describeEnvironment_continue_def describeEnvironment_catch_eq emit_def
      simulatorLogger_log_def with_iterations_def split: sum.splits)

lemma with_iterations_update:
  "(with_iterations k s)\<lparr>questions := n\<rparr> = with_iterations k (s\<lparr>questions := n\<rparr>)"
  "(with_iterations k s)\<lparr>fetches := n\<rparr> = with_iterations k (s\<lparr>fetches := n\<rparr>)"
  "(with_iterations k s)\<lparr>flushes := n\<rparr> = with_iterations k (s\<lparr>flushes := n\<rparr>)"
  "(with_iterations k s)\<lparr>completions := n\<rparr> = with_iterations k (s\<lparr>completions := n\<rparr>)"
  by (simp_all add: with_iterations_def)

lemma question_callbacks_with_iterations:
  "question_callbacks n answer (with_iterations k s) =
     with_iterations k (question_callbacks n answer s)"
  by (induction n arbitrary: s) (simp_all add: question_callback_with_iterations)

lemma unhandled_rejection_with_iterations:
  "unhandled_rejection error (with_iterations k s) =
     with_iterations k (unhandled_rejection error s)"
  by (simp add: unhandled_rejection_def with_iterations_def)

lemma flush_settled_with_iterations:
  "(case stop_continue flushed (with_iterations k s) of
      (Inl error, s') \<Rightarrow> unhandled_rejection error s'
    | (Inr u, s') \<Rightarrow> s') =
   with_iterations k
     (case stop_continue flushed s of
        (Inl error, s') \<Rightarrow> unhandled_rejection error s'
      | (Inr u, s') \<Rightarrow> s')"
  by (simp add: stop_continue_def process_exit_def emit_def unhandled_rejection_def
      with_iterations_def split: sum.splits)

lemma step_with_iterations:
  "step stringify i (with_iterations k s) = with_iterations k (step stringify i s)"
proof (cases "exitStatus s = None")
  case False
  then show ?thesis by (simp add: step_def with_iterations_simps)
next
  case True
  then show ?thesis
    by (cases i)
      (simp_all add: step_def with_iterations_simps with_iterations_update
        start_with_iterations stop_with_iterations pause_with_iterations
        resume_with_iterations runSimulation_with_iterations runIteration_with_iterations
        question_callbacks_with_iterations event_callback_with_iterations
        flush_settled_with_iterations unhandled_rejection_with_iterations
        describeEnvironment_begin_with_iterations
        describeEnvironment_continue_with_iterations)
qed

lemma run_with_iterations:
  "run stringify inputs (with_iterations k s) = with_iterations k (run stringify inputs s)"
  by (induction inputs arbitrary: s) (simp_all add: step_with_iterations)

lemma new_Simulator_iterations:
  "new_Simulator (opts\<lparr>iterations := n\<rparr>) =
     with_iterations (or_default truthy_number n (Fin 1000)) (new_Simulator opts)"
  by (simp add: new_Simulator_def initOptionsWithDefaults_def with_iterations_def)

text \<open>
  Claim C9. Take two configurations that differ only in \<open>iterations\<close>, and any sequence
  of calls, operator answers and environment events. The two runs end in simulators that
  differ only in the resolved \<open>iterations\<close> field: the same effects in the same order,
  hence the same records and the same number of events asked for, the same flags, the
  same outstanding callbacks, the same exit status. No cap is enforced.
\<close>

theorem iterations_never_consulted:
  "run stringify inputs (new_Simulator (opts\<lparr>iterations := n\<rparr>)) =
     with_iterations (or_default truthy_number n (Fin 1000))
       (run stringify inputs (new_Simulator opts)) \<and>
   trace (run stringify inputs (new_Simulator (opts\<lparr>iterations := n\<rparr>))) =
     trace (run stringify inputs (new_Simulator opts)) \<and>
   records (trace (run stringify inputs (new_Simulator (opts\<lparr>iterations := n\<rparr>)))) =
     records (trace (run stringify inputs (new_Simulator opts))) \<and>
   fetch_count (trace (run stringify inputs (new_Simulator (opts\<lparr>iterations := n\<rparr>)))) =
     fetch_count (trace (run stringify inputs (new_Simulator opts))) \<and>
   isRunning (run stringify inputs (new_Simulator (opts\<lparr>iterations := n\<rparr>))) =
     isRunning (run stringify inputs (new_Simulator opts)) \<and>
   isPaused (run stringify inputs (new_Simulator (opts\<lparr>iterations := n\<rparr>))) =
     isPaused (run stringify inputs (new_Simulator opts)) \<and>
   questions (run stringify inputs (new_Simulator (opts\<lparr>iterations := n\<rparr>))) =
     questions (run stringify inputs (new_Simulator opts)) \<and>
   fetches (run stringify inputs (new_Simulator (opts\<lparr>iterations := n\<rparr>))) =
     fetches (run stringify inputs (new_Simulator opts)) \<and>
   flushes (run stringify inputs (new_Simulator (opts\<lparr>iterations := n\<rparr>))) =
     flushes (run stringify inputs (new_Simulator opts)) \<and>
   exitStatus (run stringify inputs (new_Simulator (opts\<lparr>iterations := n\<rparr>))) =
     exitStatus (run stringify inputs (new_Simulator opts))"
  by (simp add: new_Simulator_iterations run_with_iterations with_iterations_simps)

text \<open>
  C9 at \<open>T1\<close> with \<open>iterations\<close> set to 1, for the answers \<open>x\<close>, \<open>x\<close>, \<open>q\<close>: two
  events are asked for and three iterations begin, as with the default of 1000.
\<close>

theorem iterations_never_consulted_witness:
  "fetch_count (trace (run json_of_string
      [Call_start, Answer ''x'', EventResolved ''e1'', Answer ''x'', EventResolved ''e2'',
       Answer ''q'', FlushSettled (Inr ())]
      (new_Simulator (T1_options\<lparr>iterations := Some (Fin 1)\<rparr>)))) = 2 \<and>
   iterations (options (new_Simulator (T1_options\<lparr>iterations := Some (Fin 1)\<rparr>))) =
     Some (Fin 1) \<and>
   map event (records (trace (run json_of_string
      [Call_start, Answer ''x'', EventResolved ''e1'', Answer ''x'', EventResolved ''e2'',
       Answer ''q'', FlushSettled (Inr ())]
      (new_Simulator (T1_options\<lparr>iterations := Some (Fin 1)\<rparr>))))) =
     [SIMULATOR_START, SYSTEM_LOG, SYSTEM_LOG, SYSTEM_LOG, SIMULATOR_STOP]"
proof -
  have base:
    "fetch_count (trace (run json_of_string
        [Call_start, Answer ''x'', EventResolved ''e1'', Answer ''x'', EventResolved ''e2'',
         Answer ''q'', FlushSettled (Inr ())]
        (new_Simulator T1_options))) = 2 \<and>
     map event (records (trace (run json_of_string
        [Call_start, Answer ''x'', EventResolved ''e1'', Answer ''x'', EventResolved ''e2'',
         Answer ''q'', FlushSettled (Inr ())]
        (new_Simulator T1_options)))) =
       [SIMULATOR_START, SYSTEM_LOG, SYSTEM_LOG, SYSTEM_LOG, SIMULATOR_STOP]"
    by (simp add: step_def start_eq stop_eq question_callback_def event_callback_def
        runIteration_def stop_continue_def process_exit_def emit_def simulatorLogger_log_def
        new_Simulator_def record_defs fetch_count_def Let_def)
  have resolved:
    "iterations (options (new_Simulator (T1_options\<lparr>iterations := Some (Fin 1)\<rparr>))) =
       Some (Fin 1)"
    by (simp add: new_Simulator_def initOptionsWithDefaults_def or_default_def)
  note independent =
    iterations_never_consulted
      [where stringify = json_of_string and opts = T1_options and n = "Some (Fin 1)"
         and inputs = "[Call_start, Answer ''x'', EventResolved ''e1'', Answer ''x'',
           EventResolved ''e2'', Answer ''q'', FlushSettled (Inr ())]"]
  from independent have same_fetches:
    "fetch_count (trace (run json_of_string
        [Call_start, Answer ''x'', EventResolved ''e1'', Answer ''x'', EventResolved ''e2'',
         Answer ''q'', FlushSettled (Inr ())]
        (new_Simulator (T1_options\<lparr>iterations := Some (Fin 1)\<rparr>)))) =
     fetch_count (trace (run json_of_string
        [Call_start, Answer ''x'', EventResolved ''e1'', Answer ''x'', EventResolved ''e2'',
         Answer ''q'', FlushSettled (Inr ())]
        (new_Simulator T1_options)))"
    by blast
  from independent have same_records:
    "records (trace (run json_of_string
        [Call_start, Answer ''x'', EventResolved ''e1'', Answer ''x'', EventResolved ''e2'',
         Answer ''q'', FlushSettled (Inr ())]
        (new_Simulator (T1_options\<lparr>iterations := Some (Fin 1)\<rparr>)))) =
     records (trace (run json_of_string
        [Call_start, Answer ''x'', EventResolved ''e1'', Answer ''x'', EventResolved ''e2'',
         Answer ''q'', FlushSettled (Inr ())]
        (new_Simulator T1_options)))"
    by blast
  from base resolved show ?thesis
    by (simp only: same_fetches same_records)
qed

end
